theory Spec2Isabelle
  imports Complex_Main
begin

section \<open>Numbers\<close>

text \<open>
  JavaScript numbers are IEEE doubles. They are modelled by the reals: every statement
  below is about the exact arithmetic that the source's expressions denote, and the
  concrete inputs used are chosen so that the double computation is exact or the
  comparison is far from any rounding boundary. Where the source can divide by zero the
  IEEE outcome is written out (see \<open>ratio_gt\<close>); elsewhere the divisor is nonzero.
\<close>

section \<open>utils.js: clamp\<close>

text \<open>\<^verbatim>\<open>function clamp(value, min, max) { return Math.min(Math.max(value, min), max); }\<close>\<close>

definition clamp :: "real \<Rightarrow> real \<Rightarrow> real \<Rightarrow> real" where
  "clamp v lo hi = min (max v lo) hi"

section \<open>crop.js: the crop tool module\<close>

subsection \<open>State\<close>

text \<open>The object \<open>{x, y, width, height}\<close> held in \<open>cropState\<close> and \<open>startCrop\<close>.\<close>

record crop_box =
  crop_x :: real
  crop_y :: real
  crop_width :: real
  crop_height :: real

text \<open>The value of \<open>data-handle\<close> on the eight resize handles.\<close>

datatype handle = H_tl | H_tr | H_bl | H_br | H_tm | H_bm | H_ml | H_mr

text \<open>\<open>activeHandle.includes('l')\<close> and \<open>activeHandle.includes('t')\<close> on the handle names
  \<open>tl, tr, bl, br, tm, bm, ml, mr\<close>.\<close>

fun includes_l :: "handle \<Rightarrow> bool" where
  "includes_l H_tl = True"
| "includes_l H_bl = True"
| "includes_l H_ml = True"
| "includes_l _ = False"

fun includes_t :: "handle \<Rightarrow> bool" where
  "includes_t H_tl = True"
| "includes_t H_tr = True"
| "includes_t H_tm = True"
| "includes_t _ = False"

text \<open>\<open>['tl', 'tr', 'bl', 'br'].includes(activeHandle)\<close>\<close>

fun is_corner :: "handle \<Rightarrow> bool" where
  "is_corner H_tl = True"
| "is_corner H_tr = True"
| "is_corner H_bl = True"
| "is_corner H_br = True"
| "is_corner _ = False"

text \<open>A toast is the pair of the message and its type, most recent last.\<close>

type_synonym toast = "string \<times> string"

text \<open>
  The module-level variables of the crop tool. \<open>aspectRatio\<close> is \<open>null\<close> (\<open>None\<close>) or
  the number \<open>w / h\<close> of the selected preset. The DOM is present as far as the module's
  logic reads it back: the disabled flag of the download button and the toasts shown.
\<close>

record crop_module =
  uploadedFilename :: "string option"
  imageWidth :: int
  imageHeight :: int
  displayWidth :: real
  displayHeight :: real
  scale :: real
  cropState :: crop_box
  aspectRatio :: "real option"
  isDragging :: bool
  isResizing :: bool
  activeHandle :: "handle option"
  startX :: real
  startY :: real
  startCrop :: crop_box
  downloadBtnDisabled :: bool
  toasts :: "toast list"

text \<open>JavaScript truthiness of \<open>aspectRatio\<close>: \<open>null\<close> and \<open>0\<close> are falsy.\<close>

definition truthy :: "real option \<Rightarrow> bool" where
  "truthy a = (case a of None \<Rightarrow> False | Some r \<Rightarrow> r \<noteq> 0)"

text \<open>
  \<open>w / h > r\<close> as IEEE evaluates it: with \<open>h = 0\<close> the quotient is \<open>Infinity\<close> for
  \<open>w > 0\<close> (greater than every ratio), \<open>-Infinity\<close> for \<open>w < 0\<close> and \<open>NaN\<close> for
  \<open>w = 0\<close> (both compare false).
\<close>

definition ratio_gt :: "real \<Rightarrow> real \<Rightarrow> real \<Rightarrow> bool" where
  "ratio_gt w h r = (if h = 0 then 0 < w else r < w / h)"

subsection \<open>Coordinate transform\<close>

text \<open>
  \<open>recalculateScale\<close> reads the rendered size of the image element
  (\<open>getBoundingClientRect\<close>), here the argument \<open>rect = (width, height)\<close>:
  \<^verbatim>\<open>
  displayWidth = rect.width; displayHeight = rect.height;
  if (displayWidth > 0 && imageWidth > 0) { scale = imageWidth / displayWidth; }
  else { scale = 1; }
  \<close>
\<close>

definition recalculateScale :: "real \<times> real \<Rightarrow> crop_module \<Rightarrow> crop_module" where
  "recalculateScale rect s =
     s\<lparr>displayWidth := fst rect,
       displayHeight := snd rect,
       scale := (if 0 < fst rect \<and> 0 < imageWidth s
                 then real_of_int (imageWidth s) / fst rect else 1)\<rparr>"

text \<open>
  The two conversions are written inline in the source: \<open>cropState.x * scale\<close>
  (display to source, in \<open>updateCropBox\<close>, \<open>updatePreview\<close>, \<open>applyCrop\<close>) and
  \<open>realX / scale\<close> (source to display, in \<open>handleManualInput\<close>).
\<close>

definition toSource :: "real \<Rightarrow> real \<Rightarrow> real" where
  "toSource sc p = p * sc"

definition toDisplay :: "real \<Rightarrow> real \<Rightarrow> real" where
  "toDisplay sc p = p / sc"

text \<open>\<open>Math.round\<close>: the nearest integer, halves towards plus infinity.\<close>

definition math_round :: "real \<Rightarrow> int" where
  "math_round v = \<lfloor>v + 1 / 2\<rfloor>"

subsection \<open>Dragging\<close>

text \<open>
  \<^verbatim>\<open>
  function moveCropBox(dx, dy) {
      let newX = startCrop.x + dx;
      let newY = startCrop.y + dy;
      newX = clamp(newX, 0, displayWidth - cropState.width);
      newY = clamp(newY, 0, displayHeight - cropState.height);
      cropState.x = newX;
      cropState.y = newY;
  }
  \<close>
\<close>

definition moveCropBox :: "real \<Rightarrow> real \<Rightarrow> crop_module \<Rightarrow> crop_module" where
  "moveCropBox dx dy s =
     (let newX = crop_x (startCrop s) + dx;
          newY = crop_y (startCrop s) + dy;
          newX = clamp newX 0 (displayWidth s - crop_width (cropState s));
          newY = clamp newY 0 (displayHeight s - crop_height (cropState s))
      in s\<lparr>cropState := (cropState s)\<lparr>crop_x := newX, crop_y := newY\<rparr>\<rparr>)"

subsection \<open>Resizing\<close>

text \<open>
  \<open>resizeCropBox\<close> works on four locals \<open>newX, newY, newW, newH\<close>, held here in a
  \<open>crop_box\<close>, in five consecutive blocks. Each block is one function below, in the
  order of the source; \<open>minSize\<close> is the constant 30.
\<close>

definition minSize :: real where
  "minSize = 30"

text \<open>The \<open>switch (activeHandle)\<close>: the raw delta of each handle on the snapshot.\<close>

fun resize_switch :: "handle \<Rightarrow> crop_box \<Rightarrow> real \<Rightarrow> real \<Rightarrow> crop_box" where
  "resize_switch H_tl st dx dy =
     \<lparr>crop_x = crop_x st + dx, crop_y = crop_y st + dy,
      crop_width = crop_width st - dx, crop_height = crop_height st - dy\<rparr>"
| "resize_switch H_tr st dx dy =
     \<lparr>crop_x = crop_x st, crop_y = crop_y st + dy,
      crop_width = crop_width st + dx, crop_height = crop_height st - dy\<rparr>"
| "resize_switch H_bl st dx dy =
     \<lparr>crop_x = crop_x st + dx, crop_y = crop_y st,
      crop_width = crop_width st - dx, crop_height = crop_height st + dy\<rparr>"
| "resize_switch H_br st dx dy =
     \<lparr>crop_x = crop_x st, crop_y = crop_y st,
      crop_width = crop_width st + dx, crop_height = crop_height st + dy\<rparr>"
| "resize_switch H_tm st dx dy =
     \<lparr>crop_x = crop_x st, crop_y = crop_y st + dy,
      crop_width = crop_width st, crop_height = crop_height st - dy\<rparr>"
| "resize_switch H_bm st dx dy =
     \<lparr>crop_x = crop_x st, crop_y = crop_y st,
      crop_width = crop_width st, crop_height = crop_height st + dy\<rparr>"
| "resize_switch H_ml st dx dy =
     \<lparr>crop_x = crop_x st + dx, crop_y = crop_y st,
      crop_width = crop_width st - dx, crop_height = crop_height st\<rparr>"
| "resize_switch H_mr st dx dy =
     \<lparr>crop_x = crop_x st, crop_y = crop_y st,
      crop_width = crop_width st + dx, crop_height = crop_height st\<rparr>"

text \<open>
  \<^verbatim>\<open>
  if (newW < minSize) {
      if (activeHandle.includes('l')) { newX = startCrop.x + startCrop.width - minSize; }
      newW = minSize;
  }
  if (newH < minSize) {
      if (activeHandle.includes('t')) { newY = startCrop.y + startCrop.height - minSize; }
      newH = minSize;
  }
  \<close>
\<close>

definition enforce_min :: "handle \<Rightarrow> crop_box \<Rightarrow> crop_box \<Rightarrow> crop_box" where
  "enforce_min h st g =
     (let g1 = (if crop_width g < minSize
                then (if includes_l h
                      then g\<lparr>crop_x := crop_x st + crop_width st - minSize\<rparr>
                      else g)\<lparr>crop_width := minSize\<rparr>
                else g)
      in (if crop_height g1 < minSize
          then (if includes_t h
                then g1\<lparr>crop_y := crop_y st + crop_height st - minSize\<rparr>
                else g1)\<lparr>crop_height := minSize\<rparr>
          else g1))"

text \<open>
  \<^verbatim>\<open>
  if (aspectRatio && ['tl', 'tr', 'bl', 'br'].includes(activeHandle)) {
      const currentRatio = newW / newH;
      if (currentRatio > aspectRatio) {
          newW = newH * aspectRatio;
          if (activeHandle.includes('l')) { newX = startCrop.x + startCrop.width - newW; }
      } else {
          newH = newW / aspectRatio;
          if (activeHandle.includes('t')) { newY = startCrop.y + startCrop.height - newH; }
      }
  }
  \<close>
\<close>

definition enforce_aspect :: "handle \<Rightarrow> real option \<Rightarrow> crop_box \<Rightarrow> crop_box \<Rightarrow> crop_box" where
  "enforce_aspect h a st g =
     (case a of
        None \<Rightarrow> g
      | Some r \<Rightarrow>
          if r \<noteq> 0 \<and> is_corner h then
            (if ratio_gt (crop_width g) (crop_height g) r
             then (let newW = crop_height g * r;
                       g1 = g\<lparr>crop_width := newW\<rparr>
                   in if includes_l h
                      then g1\<lparr>crop_x := crop_x st + crop_width st - newW\<rparr>
                      else g1)
             else (let newH = crop_width g / r;
                       g1 = g\<lparr>crop_height := newH\<rparr>
                   in if includes_t h
                      then g1\<lparr>crop_y := crop_y st + crop_height st - newH\<rparr>
                      else g1))
          else g)"

text \<open>
  \<^verbatim>\<open>
  if (newX < 0) { newW += newX; newX = 0; }
  if (newY < 0) { newH += newY; newY = 0; }
  if (newX + newW > displayWidth) { newW = displayWidth - newX; }
  if (newY + newH > displayHeight) { newH = displayHeight - newY; }
  \<close>
\<close>

definition bounds_check :: "real \<Rightarrow> real \<Rightarrow> crop_box \<Rightarrow> crop_box" where
  "bounds_check dw dh g =
     (let g1 = (if crop_x g < 0
                then g\<lparr>crop_width := crop_width g + crop_x g, crop_x := 0\<rparr> else g);
          g2 = (if crop_y g1 < 0
                then g1\<lparr>crop_height := crop_height g1 + crop_y g1, crop_y := 0\<rparr> else g1);
          g3 = (if dw < crop_x g2 + crop_width g2
                then g2\<lparr>crop_width := dw - crop_x g2\<rparr> else g2)
      in (if dh < crop_y g3 + crop_height g3
          then g3\<lparr>crop_height := dh - crop_y g3\<rparr> else g3))"

text \<open>\<^verbatim>\<open>newW = Math.max(newW, minSize); newH = Math.max(newH, minSize);\<close>\<close>

definition final_min :: "crop_box \<Rightarrow> crop_box" where
  "final_min g =
     g\<lparr>crop_width := max (crop_width g) minSize, crop_height := max (crop_height g) minSize\<rparr>"

text \<open>The body of \<open>resizeCropBox\<close> for a handle \<open>h\<close>: the five blocks in sequence.\<close>

definition resize_box ::
  "handle \<Rightarrow> real option \<Rightarrow> real \<Rightarrow> real \<Rightarrow> crop_box \<Rightarrow> real \<Rightarrow> real \<Rightarrow> crop_box" where
  "resize_box h a dw dh st dx dy =
     final_min (bounds_check dw dh
       (enforce_aspect h a st (enforce_min h st (resize_switch h st dx dy))))"

text \<open>
  \<open>resizeCropBox\<close> on the module state. With \<open>activeHandle = null\<close> no case of the
  switch matches and the corner test is false, and the first minimum-size branch taken
  throws a TypeError on \<open>activeHandle.includes\<close>: the result \<open>None\<close>. The result
  replaces \<open>cropState\<close> wholesale.
\<close>

definition resizeCropBox :: "real \<Rightarrow> real \<Rightarrow> crop_module \<Rightarrow> crop_module option" where
  "resizeCropBox dx dy s =
     (case activeHandle s of
        None \<Rightarrow>
          if crop_width (startCrop s) < minSize \<or> crop_height (startCrop s) < minSize
          then None
          else Some (s\<lparr>cropState :=
                 final_min (bounds_check (displayWidth s) (displayHeight s) (startCrop s))\<rparr>)
      | Some h \<Rightarrow>
          Some (s\<lparr>cropState :=
            resize_box h (aspectRatio s) (displayWidth s) (displayHeight s)
              (startCrop s) dx dy\<rparr>))"

subsection \<open>Re-constraining to the aspect ratio\<close>

text \<open>
  \<^verbatim>\<open>
  function constrainCropBox() {
      if (!aspectRatio) return;
      const currentRatio = cropState.width / cropState.height;
      if (currentRatio > aspectRatio) { cropState.width = cropState.height * aspectRatio; }
      else { cropState.height = cropState.width / aspectRatio; }
      if (cropState.x + cropState.width > displayWidth) { cropState.x = displayWidth - cropState.width; }
      if (cropState.y + cropState.height > displayHeight) { cropState.y = displayHeight - cropState.height; }
      cropState.x = Math.max(0, cropState.x);
      cropState.y = Math.max(0, cropState.y);
  }
  \<close>
\<close>

definition constrainCropBox :: "crop_module \<Rightarrow> crop_module" where
  "constrainCropBox s =
     (case aspectRatio s of
        None \<Rightarrow> s
      | Some r \<Rightarrow>
          if r = 0 then s
          else
            (let c = cropState s;
                 c1 = (if ratio_gt (crop_width c) (crop_height c) r
                       then c\<lparr>crop_width := crop_height c * r\<rparr>
                       else c\<lparr>crop_height := crop_width c / r\<rparr>);
                 c2 = (if displayWidth s < crop_x c1 + crop_width c1
                       then c1\<lparr>crop_x := displayWidth s - crop_width c1\<rparr> else c1);
                 c3 = (if displayHeight s < crop_y c2 + crop_height c2
                       then c2\<lparr>crop_y := displayHeight s - crop_height c2\<rparr> else c2)
             in s\<lparr>cropState := c3\<lparr>crop_x := max 0 (crop_x c3), crop_y := max 0 (crop_y c3)\<rparr>\<rparr>))"

text \<open>
  The click handler of the aspect buttons. Its argument is what the handler computes
  from the button's \<open>data-ratio\<close>: \<open>None\<close> for \<open>free\<close>, the quotient \<open>w / h\<close> for
  \<open>w:h\<close>.
  \<^verbatim>\<open>
  if (ratio === 'free') { aspectRatio = null; } else { ...; aspectRatio = w / h; }
  if (cropState.width > 0) { constrainCropBox(); updateCropBox(); updatePreview(); }
  \<close>
\<close>

definition aspectButtonClick :: "real option \<Rightarrow> crop_module \<Rightarrow> crop_module" where
  "aspectButtonClick ratio s =
     (let s1 = s\<lparr>aspectRatio := ratio\<rparr>
      in if 0 < crop_width (cropState s1) then constrainCropBox s1 else s1)"

subsection \<open>Manual input\<close>

text \<open>
  \<open>parseInt(string)\<close> without a radix, on ASCII text: leading white space is skipped, a
  sign is read, a prefix \<open>0x\<close> or \<open>0X\<close> selects radix 16, and the longest run of
  digits of the radix is the value; with no digit the result is \<open>NaN\<close>, here \<open>None\<close>.
\<close>

definition is_space :: "char \<Rightarrow> bool" where
  "is_space c = ((of_char c :: nat) \<in> {9, 10, 11, 12, 13, 32})"

definition digit_val :: "char \<Rightarrow> nat" where
  "digit_val c =
     (let n = (of_char c :: nat)
      in if 48 \<le> n \<and> n \<le> 57 then n - 48
         else if 97 \<le> n \<and> n \<le> 122 then n - 87
         else if 65 \<le> n \<and> n \<le> 90 then n - 55
         else 36)"

definition is_digit :: "nat \<Rightarrow> char \<Rightarrow> bool" where
  "is_digit radix c = (digit_val c < radix)"

definition parseInt :: "string \<Rightarrow> int option" where
  "parseInt str =
     (let s1 = dropWhile is_space str;
          neg = (case s1 of c # cs \<Rightarrow> c = CHR ''-'' | [] \<Rightarrow> False);
          s2 = (case s1 of c # cs \<Rightarrow> if c = CHR ''-'' \<or> c = CHR ''+'' then cs else s1
                | [] \<Rightarrow> s1);
          hex = (case s2 of c # d # cs \<Rightarrow> c = CHR ''0'' \<and> (d = CHR ''x'' \<or> d = CHR ''X'')
                 | _ \<Rightarrow> False);
          radix = (if hex then 16 else 10);
          s3 = (if hex then drop 2 s2 else s2);
          z = takeWhile (is_digit radix) s3;
          n = int (foldl (\<lambda>a c. a * radix + digit_val c) 0 z)
      in if z = [] then None else Some (if neg then - n else n))"

text \<open>\<open>parseInt(v) || d\<close>: \<open>NaN\<close> and \<open>0\<close> are falsy and give the default.\<close>

definition or_default :: "int option \<Rightarrow> int \<Rightarrow> int" where
  "or_default p d = (case p of None \<Rightarrow> d | Some n \<Rightarrow> if n = 0 then d else n)"

text \<open>
  The arguments are the current texts of the fields \<open>cropX, cropY, cropW, cropH\<close>.
  \<^verbatim>\<open>
  const realX = parseInt(cropX.value) || 0;   const realY = parseInt(cropY.value) || 0;
  const realW = parseInt(cropW.value) || 100; const realH = parseInt(cropH.value) || 100;
  const x = realX / scale; const y = realY / scale;
  const w = realW / scale; const h = realH / scale;
  cropState = {
      x: clamp(x, 0, displayWidth - 30),
      y: clamp(y, 0, displayHeight - 30),
      width: clamp(w, 30, displayWidth - x),
      height: clamp(h, 30, displayHeight - y)
  };
  if (aspectRatio) { constrainCropBox(); }
  \<close>
  \<open>manual_box\<close> is the object assigned to \<open>cropState\<close>.
\<close>

definition manual_box ::
  "string \<Rightarrow> string \<Rightarrow> string \<Rightarrow> string \<Rightarrow> crop_module \<Rightarrow> crop_box" where
  "manual_box vx vy vw vh s =
     (let realX = or_default (parseInt vx) 0;
          realY = or_default (parseInt vy) 0;
          realW = or_default (parseInt vw) 100;
          realH = or_default (parseInt vh) 100;
          x = toDisplay (scale s) (real_of_int realX);
          y = toDisplay (scale s) (real_of_int realY);
          w = toDisplay (scale s) (real_of_int realW);
          h = toDisplay (scale s) (real_of_int realH)
      in \<lparr>crop_x = clamp x 0 (displayWidth s - 30),
          crop_y = clamp y 0 (displayHeight s - 30),
          crop_width = clamp w 30 (displayWidth s - x),
          crop_height = clamp h 30 (displayHeight s - y)\<rparr>)"

definition handleManualInput ::
  "string \<Rightarrow> string \<Rightarrow> string \<Rightarrow> string \<Rightarrow> crop_module \<Rightarrow> crop_module" where
  "handleManualInput vx vy vw vh s =
     (let s1 = s\<lparr>cropState := manual_box vx vy vw vh s\<rparr>
      in if truthy (aspectRatio s1) then constrainCropBox s1 else s1)"

subsection \<open>Pointer events\<close>

text \<open>
  \<open>handleMouseDown\<close>: \<open>target\<close> is \<open>Some h\<close> when the event target is the resize
  handle \<open>h\<close> and \<open>None\<close> for the interior of the box; \<open>rect\<close> is the rendered size
  read by \<open>recalculateScale\<close>. The snapshot \<open>startCrop\<close> is a copy of \<open>cropState\<close>.
\<close>

definition handleMouseDown ::
  "real \<times> real \<Rightarrow> handle option \<Rightarrow> real \<Rightarrow> real \<Rightarrow> crop_module \<Rightarrow> crop_module" where
  "handleMouseDown rect target clientX clientY s =
     (let s1 = recalculateScale rect s;
          s2 = (case target of
                  Some h \<Rightarrow> s1\<lparr>isResizing := True, activeHandle := Some h\<rparr>
                | None \<Rightarrow> s1\<lparr>isDragging := True\<rparr>)
      in s2\<lparr>startX := clientX, startY := clientY, startCrop := cropState s2\<rparr>)"

text \<open>
  \<^verbatim>\<open>
  if (!isDragging && !isResizing) return;
  const dx = e.clientX - startX; const dy = e.clientY - startY;
  if (isDragging) { moveCropBox(dx, dy); } else if (isResizing) { resizeCropBox(dx, dy); }
  \<close>
\<close>

definition handleMouseMove :: "real \<Rightarrow> real \<Rightarrow> crop_module \<Rightarrow> crop_module option" where
  "handleMouseMove clientX clientY s =
     (if \<not> isDragging s \<and> \<not> isResizing s then Some s
      else
        (let dx = clientX - startX s; dy = clientY - startY s
         in if isDragging s then Some (moveCropBox dx dy s)
            else if isResizing s then resizeCropBox dx dy s
            else Some s))"

definition handleMouseUp :: "crop_module \<Rightarrow> crop_module" where
  "handleMouseUp s = s\<lparr>isDragging := False, isResizing := False, activeHandle := None\<rparr>"

text \<open>A drag gesture after the pointer went down: the pointer positions of its move events,
  in order. A failing move stops the handler chain.\<close>

fun handleMouseMoves :: "(real \<times> real) list \<Rightarrow> crop_module \<Rightarrow> crop_module option" where
  "handleMouseMoves [] s = Some s"
| "handleMouseMoves (p # ps) s =
     (case handleMouseMove (fst p) (snd p) s of
        None \<Rightarrow> None
      | Some s' \<Rightarrow> handleMouseMoves ps s')"

subsection \<open>Applying the crop\<close>

text \<open>
  The outcome of a \<open>fetch\<close> of a processing endpoint followed by \<open>response.json()\<close>:
  a 2xx response with its body, a non-2xx response with the \<open>detail\<close> of its JSON body
  (\<open>None\<close> when the body has no such field), or a rejection (transport failure, body
  that is not JSON) with the message of the Error.
\<close>

datatype 'a response =
    Resp_ok 'a
  | Resp_error "string option"
  | Fetch_rejected string

text \<open>\<open>error.detail || fallback\<close>: an absent or empty detail is falsy.\<close>

definition detail_or :: "string option \<Rightarrow> string \<Rightarrow> string" where
  "detail_or d fallback = (case d of None \<Rightarrow> fallback | Some m \<Rightarrow> if m = [] then fallback else m)"

text \<open>The form fields of \<open>POST /crop\<close> and the body of its 2xx answer.\<close>

record crop_request =
  req_filename :: string
  req_x :: int
  req_y :: int
  req_width :: int
  req_height :: int

record crop_result =
  res_filename :: string
  res_imageUrl :: string
  res_width :: int
  res_height :: int

text \<open>
  \<open>cropImageAPI\<close> either returns the body or throws an Error, whose message is the
  \<open>Inl\<close> value. The server is the function from the request to the outcome.
  \<^verbatim>\<open>
  if (!response.ok) { const error = await response.json();
                      throw new Error(error.detail || 'Crop failed'); }
  return response.json();
  \<close>
\<close>

definition cropImageAPI ::
  "(crop_request \<Rightarrow> crop_result response) \<Rightarrow> crop_request \<Rightarrow> string + crop_result" where
  "cropImageAPI server req =
     (case server req of
        Resp_ok r \<Rightarrow> Inr r
      | Resp_error d \<Rightarrow> Inl (detail_or d ''Crop failed'')
      | Fetch_rejected m \<Rightarrow> Inl m)"

text \<open>
  The request \<open>applyCrop\<close> builds from the state for the file name \<open>f\<close>:
  \<^verbatim>\<open>
  const crop = { x: Math.max(0, Math.round(cropState.x * scale)), y: ...,
                 width: Math.max(1, Math.round(cropState.width * scale)), height: ... };
  crop.x = Math.min(crop.x, imageWidth - 1);   crop.y = Math.min(crop.y, imageHeight - 1);
  crop.width = Math.min(crop.width, imageWidth - crop.x);
  crop.height = Math.min(crop.height, imageHeight - crop.y);
  \<close>
\<close>

definition crop_request_of :: "string \<Rightarrow> crop_module \<Rightarrow> crop_request" where
  "crop_request_of f s =
     (let c = cropState s;
          x0 = max 0 (math_round (toSource (scale s) (crop_x c)));
          y0 = max 0 (math_round (toSource (scale s) (crop_y c)));
          w0 = max 1 (math_round (toSource (scale s) (crop_width c)));
          h0 = max 1 (math_round (toSource (scale s) (crop_height c)));
          x1 = min x0 (imageWidth s - 1);
          y1 = min y0 (imageHeight s - 1)
      in \<lparr>req_filename = f, req_x = x1, req_y = y1,
          req_width = min w0 (imageWidth s - x1),
          req_height = min h0 (imageHeight s - y1)\<rparr>)"

definition showToast :: "string \<Rightarrow> string \<Rightarrow> toast list \<Rightarrow> toast list" where
  "showToast message type ts = ts @ [(message, type)]"

text \<open>
  \<open>applyCrop\<close>. A \<open>null\<close> or empty \<open>uploadedFilename\<close> is falsy. The reload of the image
  element that follows a success (\<open>recalculateScale\<close>, \<open>initCropBox\<close> in its \<open>onload\<close>)
  is a later event and not part of this step.
\<close>

definition applyCrop ::
  "(crop_request \<Rightarrow> crop_result response) \<Rightarrow> crop_module \<Rightarrow> crop_module" where
  "applyCrop server s =
     (case uploadedFilename s of
        None \<Rightarrow> s\<lparr>toasts := showToast ''Please upload an image first'' ''warning'' (toasts s)\<rparr>
      | Some f \<Rightarrow>
          if f = [] then
            s\<lparr>toasts := showToast ''Please upload an image first'' ''warning'' (toasts s)\<rparr>
          else
            (let s1 = s\<lparr>toasts := showToast ''Cropping image...'' ''info'' (toasts s)\<rparr>
             in case cropImageAPI server (crop_request_of f s1) of
                  Inr result \<Rightarrow>
                    s1\<lparr>uploadedFilename := Some (res_filename result),
                       imageWidth := res_width result,
                       imageHeight := res_height result,
                       downloadBtnDisabled := False,
                       toasts := showToast ''Image cropped successfully!'' ''success'' (toasts s1)\<rparr>
                | Inl message \<Rightarrow>
                    s1\<lparr>toasts := showToast (''Crop failed: '' @ message) ''error'' (toasts s1)\<rparr>))"

text \<open>The requests that reach the server when \<open>applyCrop\<close> runs in state \<open>s\<close>.\<close>

definition applyCrop_requests :: "crop_module \<Rightarrow> crop_request list" where
  "applyCrop_requests s =
     (case uploadedFilename s of
        None \<Rightarrow> []
      | Some f \<Rightarrow> if f = [] then []
                  else [crop_request_of f
                          (s\<lparr>toasts := showToast ''Cropping image...'' ''info'' (toasts s)\<rparr>)])"

section \<open>The upscale tool module\<close>

subsection \<open>utils.js: validateFile and the upload and upscale calls\<close>

record upload_file =
  file_type :: string
  file_size :: nat

text \<open>
  \<open>validateFile\<close> returns whether the file is accepted and shows a toast when not.
\<close>

definition validateFile :: "upload_file \<Rightarrow> toast list \<Rightarrow> bool \<times> toast list" where
  "validateFile f ts =
     (if file_type f \<notin> set [''image/jpeg'', ''image/png'', ''image/webp'']
      then (False, showToast ''Invalid file type. Please upload JPG, PNG, or WebP.'' ''error'' ts)
      else if 10 * 1024 * 1024 < file_size f
      then (False, showToast ''File too large. Maximum size is 10MB.'' ''error'' ts)
      else (True, ts))"

record upscale_result =
  ures_filename :: string
  ures_imageUrl :: string

text \<open>\<open>uploadFile\<close> and \<open>upscaleImage\<close>, as \<open>cropImageAPI\<close> above.\<close>

definition uploadFile :: "string response \<Rightarrow> string + string" where
  "uploadFile outcome =
     (case outcome of
        Resp_ok filename \<Rightarrow> Inr filename
      | Resp_error d \<Rightarrow> Inl (detail_or d ''Upload failed'')
      | Fetch_rejected m \<Rightarrow> Inl m)"

definition upscaleImage ::
  "(string \<times> int \<Rightarrow> upscale_result response) \<Rightarrow> string \<Rightarrow> int \<Rightarrow> string + upscale_result" where
  "upscaleImage server filename sc =
     (case server (filename, sc) of
        Resp_ok r \<Rightarrow> Inr r
      | Resp_error d \<Rightarrow> Inl (detail_or d ''Upscale failed'')
      | Fetch_rejected m \<Rightarrow> Inl m)"

subsection \<open>State\<close>

text \<open>
  The module-level variables of the upscale tool and the DOM state its logic decides:
  which scale card carries the class \<open>active\<close>, whether each card accepts clicks
  (\<open>pointerEvents\<close> is not \<open>none\<close>), the visibility of the comparison section and of
  the loading overlay, the disabled flags of the buttons, and the toasts.
\<close>

record upscale_module =
  up_uploadedFilename :: "string option"
  processedFilename :: "string option"
  originalWidth :: int
  originalHeight :: int
  selectedScale :: int
  activeCard :: "int option"
  card2Enabled :: bool
  card4Enabled :: bool
  card8Enabled :: bool
  comparisonHidden :: bool
  loadingHidden :: bool
  up_resetBtnDisabled :: bool
  upscaleBtnDisabled :: bool
  up_downloadBtnDisabled :: bool
  up_toasts :: "toast list"

text \<open>The state after page load and after \<open>reset\<close>.\<close>

definition upscale_init :: upscale_module where
  "upscale_init =
     \<lparr>up_uploadedFilename = None, processedFilename = None,
      originalWidth = 0, originalHeight = 0, selectedScale = 4, activeCard = Some 4,
      card2Enabled = True, card4Enabled = True, card8Enabled = True,
      comparisonHidden = True, loadingHidden = True,
      up_resetBtnDisabled = True, upscaleBtnDisabled = True, up_downloadBtnDisabled = True,
      up_toasts = []\<rparr>"

text \<open>The click handler of a scale card with \<open>data-scale = n\<close>.\<close>

definition card_enabled :: "int \<Rightarrow> upscale_module \<Rightarrow> bool" where
  "card_enabled n s =
     (if n = 2 then card2Enabled s else if n = 4 then card4Enabled s
      else if n = 8 then card8Enabled s else False)"

definition scaleCardClick :: "int \<Rightarrow> upscale_module \<Rightarrow> upscale_module" where
  "scaleCardClick n s =
     (if \<not> card_enabled n s then s else s\<lparr>activeCard := Some n, selectedScale := n\<rparr>)"

subsection \<open>handleFileSelect\<close>

text \<open>
  The part of \<open>handleFileSelect\<close> that runs on the dimensions of the new file:
  \<^verbatim>\<open>
  scale8Card.style.pointerEvents = 'auto';
  if (originalWidth * 8 > 10000 || originalHeight * 8 > 10000) {
      scale8Card.style.pointerEvents = 'none';
      if (selectedScale === 8) { ...classList.add('active') on card 4; selectedScale = 4; }
  }
  if (originalWidth * 4 > 10000 || originalHeight * 4 > 10000) {
      scale4Card.style.pointerEvents = 'none';
      if (selectedScale === 4) { ...classList.add('active') on card 2; selectedScale = 2; }
  } else { scale4Card.style.pointerEvents = 'auto'; }
  \<close>
\<close>

definition too_large :: "int \<Rightarrow> int \<Rightarrow> int \<Rightarrow> bool" where
  "too_large w h n = (10000 < w * n \<or> 10000 < h * n)"

definition check_scales :: "upscale_module \<Rightarrow> upscale_module" where
  "check_scales s =
     (let s1 = s\<lparr>card8Enabled := True\<rparr>;
          s2 = (if too_large (originalWidth s1) (originalHeight s1) 8
                then (let t = s1\<lparr>card8Enabled := False\<rparr>
                      in if selectedScale t = 8
                         then t\<lparr>activeCard := Some 4, selectedScale := 4\<rparr> else t)
                else s1)
      in (if too_large (originalWidth s2) (originalHeight s2) 4
          then (let t = s2\<lparr>card4Enabled := False\<rparr>
                in if selectedScale t = 4
                   then t\<lparr>activeCard := Some 2, selectedScale := 2\<rparr> else t)
          else s2\<lparr>card4Enabled := True\<rparr>))"

text \<open>
  \<open>handleFileSelect\<close> of the upscale tool: \<open>dims\<close> is what \<open>getImageDimensions\<close>
  resolves to and \<open>outcome\<close> the outcome of the upload request.
\<close>

definition handleFileSelect ::
  "upload_file \<Rightarrow> int \<times> int \<Rightarrow> string response \<Rightarrow> upscale_module \<Rightarrow> upscale_module" where
  "handleFileSelect f dims outcome s =
     (case validateFile f (up_toasts s) of
        (False, ts) \<Rightarrow> s\<lparr>up_toasts := ts\<rparr>
      | (True, ts) \<Rightarrow>
          (let s1 = check_scales (s\<lparr>originalWidth := fst dims, originalHeight := snd dims\<rparr>);
               s2 = s1\<lparr>up_toasts := showToast ''Uploading image...'' ''info'' (up_toasts s1)\<rparr>
           in case uploadFile outcome of
                Inr filename \<Rightarrow>
                  s2\<lparr>up_uploadedFilename := Some filename,
                     up_resetBtnDisabled := False,
                     upscaleBtnDisabled := False,
                     up_toasts := showToast ''Image loaded successfully!'' ''success'' (up_toasts s2)\<rparr>
              | Inl message \<Rightarrow>
                  s2\<lparr>up_toasts :=
                       showToast (''Upload failed: '' @ message) ''error'' (up_toasts s2)\<rparr>))"

subsection \<open>processUpscale\<close>

text \<open>
  \<open>processUpscale\<close>: \<open>loaded\<close> tells whether the result image, fetched after a 2xx
  answer, loads (\<open>tempImg.onload\<close>) or not (\<open>tempImg.onerror\<close>). The \<open>finally\<close> block
  enables the upscale button on every path through the \<open>try\<close>.
\<close>

text \<open>The decimal text of a number inside a template literal.\<close>

fun nat_text :: "nat \<Rightarrow> string" where
  "nat_text n =
     (if n < 10 then [char_of (48 + n)]
      else nat_text (n div 10) @ [char_of (48 + n mod 10)])"

definition int_text :: "int \<Rightarrow> string" where
  "int_text i = (if i < 0 then CHR ''-'' # nat_text (nat (- i)) else nat_text (nat i))"

definition processUpscale ::
  "(string \<times> int \<Rightarrow> upscale_result response) \<Rightarrow> bool \<Rightarrow> upscale_module \<Rightarrow> upscale_module" where
  "processUpscale server loaded s =
     (case up_uploadedFilename s of
        None \<Rightarrow>
          s\<lparr>up_toasts := showToast ''Please upload an image first'' ''warning'' (up_toasts s)\<rparr>
      | Some f \<Rightarrow>
          if f = [] then
            s\<lparr>up_toasts := showToast ''Please upload an image first'' ''warning'' (up_toasts s)\<rparr>
          else if too_large (originalWidth s) (originalHeight s) (selectedScale s) then
            s\<lparr>up_toasts :=
                showToast ''Resulting image would be too large. Try a smaller scale.'' ''warning''
                  (up_toasts s)\<rparr>
          else
            (let s1 = s\<lparr>comparisonHidden := False, loadingHidden := False,
                         upscaleBtnDisabled := True,
                         up_toasts :=
                           showToast (''Upscaling image '' @ int_text (selectedScale s)
                                        @ ''x... This may take a moment.'') ''info''
                             (up_toasts s)\<rparr>
             in case upscaleImage server f (selectedScale s1) of
                  Inr result \<Rightarrow>
                    (let s2 = s1\<lparr>processedFilename := Some (ures_filename result),
                                  upscaleBtnDisabled := False\<rparr>
                     in if loaded
                        then s2\<lparr>loadingHidden := True, up_downloadBtnDisabled := False,
                                up_toasts :=
                                  showToast (''Image upscaled '' @ int_text (selectedScale s2)
                                               @ ''x successfully!'') ''success''
                                    (up_toasts s2)\<rparr>
                        else s2\<lparr>loadingHidden := True,
                                up_toasts := showToast ''Failed to load upscaled image'' ''error''
                                               (up_toasts s2)\<rparr>)
                | Inl message \<Rightarrow>
                    s1\<lparr>up_toasts :=
                         showToast (''Upscale failed: '' @ message) ''error'' (up_toasts s1),
                       loadingHidden := True, comparisonHidden := True,
                       upscaleBtnDisabled := False\<rparr>))"

text \<open>The requests that reach the server when \<open>processUpscale\<close> runs in state \<open>s\<close>.\<close>

definition processUpscale_requests :: "upscale_module \<Rightarrow> (string \<times> int) list" where
  "processUpscale_requests s =
     (case up_uploadedFilename s of
        None \<Rightarrow> []
      | Some f \<Rightarrow>
          if f = [] \<or> too_large (originalWidth s) (originalHeight s) (selectedScale s) then []
          else [(f, selectedScale s)])"

section \<open>The geometry invariant and the example session\<close>


text \<open>
  A session used for the concrete inputs below: a 1600 x 1200 image rendered at
  800 x 600 (scale 2), free aspect ratio, no gesture active, with a crop rectangle of
  100 x 100 that touches the lower edge of the display area.
\<close>

definition example_module :: crop_module where
  "example_module =
     \<lparr>uploadedFilename = Some ''a.png'', imageWidth = 1600, imageHeight = 1200,
      displayWidth = 800, displayHeight = 600, scale = 2,
      cropState = \<lparr>crop_x = 100, crop_y = 500, crop_width = 100, crop_height = 100\<rparr>,
      aspectRatio = None, isDragging = False, isResizing = False, activeHandle = None,
      startX = 0, startY = 0,
      startCrop = \<lparr>crop_x = 100, crop_y = 500, crop_width = 100, crop_height = 100\<rparr>,
      downloadBtnDisabled = True, toasts = []\<rparr>"

text \<open>
  Servers for the concrete inputs: one that answers every request with a 2xx response
  carrying \<open>r\<close>, and one that answers every request with a non-2xx response whose
  detail is \<open>d\<close>.
\<close>

definition answer_with :: "'a \<Rightarrow> 'q \<Rightarrow> 'a response" where
  "answer_with r q = Resp_ok r"

definition reject_with :: "string \<Rightarrow> 'q \<Rightarrow> 'a response" where
  "reject_with d q = Resp_error (Some d)"

text \<open>A PNG file of 2 MB, and an upscale session holding an uploaded 1000 x 800 image
  with the default scale 4 selected.\<close>

definition example_file :: upload_file where
  "example_file = \<lparr>file_type = ''image/png'', file_size = 2000000\<rparr>"

definition example_upscale :: upscale_module where
  "example_upscale =
     upscale_init\<lparr>up_uploadedFilename := Some ''u.png'', originalWidth := 1000,
       originalHeight := 800, up_resetBtnDisabled := False, upscaleBtnDisabled := False\<rparr>"

section \<open>Auxiliary facts\<close>

subsection \<open>clamp and the parser\<close>

lemmas parse_defs = parseInt_def is_space_def is_digit_def digit_val_def or_default_def

lemmas resize_defs = resizeCropBox_def resize_box_def final_min_def bounds_check_def
  enforce_aspect_def enforce_min_def ratio_gt_def minSize_def Let_def

lemma clamp_cases:
  "lo \<le> hi \<Longrightarrow> clamp v lo hi = (if v < lo then lo else if hi < v then hi else v)"
  by (simp add: clamp_def min_def max_def)

lemma clamp_within:
  "lo \<le> hi \<Longrightarrow> lo \<le> clamp v lo hi \<and> clamp v lo hi \<le> hi"
  by (simp add: clamp_def min_def max_def)

lemma clamp_bounds_inverted: "hi < lo \<Longrightarrow> clamp v lo hi = hi"
  by (simp add: clamp_def min_def max_def)


subsection \<open>The blocks of resizeCropBox\<close>








text \<open>After the minimum-size block both sizes are at least 30; a left handle keeps the
  right edge of the snapshot and any other handle its left edge, and likewise for top
  and bottom.\<close>

lemma enforce_min_horizontal:
  "30 \<le> crop_width (enforce_min h st (resize_switch h st dx dy)) \<and>
   (if includes_l h
    then crop_x (enforce_min h st (resize_switch h st dx dy))
         + crop_width (enforce_min h st (resize_switch h st dx dy)) = crop_x st + crop_width st
    else crop_x (enforce_min h st (resize_switch h st dx dy)) = crop_x st)"
  by (cases h) (simp_all add: enforce_min_def minSize_def Let_def)

lemma enforce_min_vertical:
  "30 \<le> crop_height (enforce_min h st (resize_switch h st dx dy)) \<and>
   (if includes_t h
    then crop_y (enforce_min h st (resize_switch h st dx dy))
         + crop_height (enforce_min h st (resize_switch h st dx dy)) = crop_y st + crop_height st
    else crop_y (enforce_min h st (resize_switch h st dx dy)) = crop_y st)"
  by (cases h) (simp_all add: enforce_min_def minSize_def Let_def)





lemma enforce_aspect_corner:
  assumes "is_corner h" and "r \<noteq> 0" and "30 \<le> crop_width g" and "30 \<le> crop_height g"
  shows "(if r < crop_width g / crop_height g
          then crop_width (enforce_aspect h (Some r) st g) = crop_height g * r \<and>
               crop_height (enforce_aspect h (Some r) st g) = crop_height g
          else crop_height (enforce_aspect h (Some r) st g) = crop_width g / r \<and>
               crop_width (enforce_aspect h (Some r) st g) = crop_width g)"
    and "crop_width (enforce_aspect h (Some r) st g) / crop_height (enforce_aspect h (Some r) st g) = r"
  using assms by (auto simp: enforce_aspect_def ratio_gt_def Let_def)

lemma enforce_aspect_horizontal:
  assumes "if includes_l h then crop_x g + crop_width g = crop_x st + crop_width st
           else crop_x g = crop_x st"
  shows "if includes_l h
         then crop_x (enforce_aspect h a st g) + crop_width (enforce_aspect h a st g)
              = crop_x st + crop_width st
         else crop_x (enforce_aspect h a st g) = crop_x st"
  using assms by (auto simp: enforce_aspect_def Let_def split: option.splits)

lemma enforce_aspect_vertical:
  assumes "if includes_t h then crop_y g + crop_height g = crop_y st + crop_height st
           else crop_y g = crop_y st"
  shows "if includes_t h
         then crop_y (enforce_aspect h a st g) + crop_height (enforce_aspect h a st g)
              = crop_y st + crop_height st
         else crop_y (enforce_aspect h a st g) = crop_y st"
  using assms by (auto simp: enforce_aspect_def Let_def split: option.splits)


subsection \<open>Dragging\<close>

lemma handleMouseMove_drag:
  assumes "isDragging s"
  shows "handleMouseMove qx qy s = Some (moveCropBox (qx - startX s) (qy - startY s) s)"
  using assms by (simp add: handleMouseMove_def Let_def)

lemma moveCropBox_frame:
  "isDragging (moveCropBox dx dy s) = isDragging s"
  "startCrop (moveCropBox dx dy s) = startCrop s"
  "startX (moveCropBox dx dy s) = startX s"
  "startY (moveCropBox dx dy s) = startY s"
  "displayWidth (moveCropBox dx dy s) = displayWidth s"
  "displayHeight (moveCropBox dx dy s) = displayHeight s"
  "crop_width (cropState (moveCropBox dx dy s)) = crop_width (cropState s)"
  "crop_height (cropState (moveCropBox dx dy s)) = crop_height (cropState s)"
  by (simp_all add: moveCropBox_def Let_def)

lemma moveCropBox_position:
  "crop_x (cropState (moveCropBox dx dy s))
     = clamp (crop_x (startCrop s) + dx) 0 (displayWidth s - crop_width (cropState s))"
  "crop_y (cropState (moveCropBox dx dy s))
     = clamp (crop_y (startCrop s) + dy) 0 (displayHeight s - crop_height (cropState s))"
  by (simp_all add: moveCropBox_def Let_def)


lemma handleMouseMoves_drag:
  assumes "isDragging s"
  shows "\<exists>s'. handleMouseMoves ps s = Some s' \<and> isDragging s' \<and>
           startCrop s' = startCrop s \<and> startX s' = startX s \<and> startY s' = startY s \<and>
           displayWidth s' = displayWidth s \<and> displayHeight s' = displayHeight s \<and>
           crop_width (cropState s') = crop_width (cropState s) \<and>
           crop_height (cropState s') = crop_height (cropState s)"
  using assms
proof (induction ps arbitrary: s)
  case Nil
  then show ?case by simp
next
  case (Cons p ps)
  let ?t = "moveCropBox (fst p - startX s) (snd p - startY s) s"
  have step: "handleMouseMove (fst p) (snd p) s = Some ?t"
    by (rule handleMouseMove_drag[OF Cons.prems])
  have "isDragging ?t" using Cons.prems by (simp add: moveCropBox_frame)
  from Cons.IH[OF this] show ?case
    by (simp add: step moveCropBox_frame)
qed

lemma handleMouseMoves_snoc:
  "handleMouseMoves (ps @ [p]) s =
     (case handleMouseMoves ps s of None \<Rightarrow> None | Some s' \<Rightarrow> handleMouseMove (fst p) (snd p) s')"
  by (induction ps arbitrary: s) (auto split: option.splits)

lemma handleMouseDown_interior:
  "isDragging (handleMouseDown rect None px py s)"
  "startCrop (handleMouseDown rect None px py s) = cropState s"
  "cropState (handleMouseDown rect None px py s) = cropState s"
  "startX (handleMouseDown rect None px py s) = px"
  "startY (handleMouseDown rect None px py s) = py"
  "displayWidth (handleMouseDown rect None px py s) = fst rect"
  "displayHeight (handleMouseDown rect None px py s) = snd rect"
  by (simp_all add: handleMouseDown_def recalculateScale_def Let_def)


subsection \<open>constrainCropBox and handleManualInput\<close>

lemma constrainCropBox_size:
  assumes "aspectRatio s = Some r" and "r \<noteq> 0"
  shows "crop_width (cropState (constrainCropBox s)) =
           (if ratio_gt (crop_width (cropState s)) (crop_height (cropState s)) r
            then crop_height (cropState s) * r else crop_width (cropState s))"
    and "crop_height (cropState (constrainCropBox s)) =
           (if ratio_gt (crop_width (cropState s)) (crop_height (cropState s)) r
            then crop_height (cropState s) else crop_width (cropState s) / r)"
  using assms by (simp_all add: constrainCropBox_def Let_def)

lemma constrainCropBox_position:
  assumes "aspectRatio s = Some r" and "r \<noteq> 0"
  shows "crop_x (cropState (constrainCropBox s)) =
           max 0 (if displayWidth s < crop_x (cropState s) + crop_width (cropState (constrainCropBox s))
                  then displayWidth s - crop_width (cropState (constrainCropBox s))
                  else crop_x (cropState s))"
    and "crop_y (cropState (constrainCropBox s)) =
           max 0 (if displayHeight s < crop_y (cropState s) + crop_height (cropState (constrainCropBox s))
                  then displayHeight s - crop_height (cropState (constrainCropBox s))
                  else crop_y (cropState s))"
  using assms by (simp_all add: constrainCropBox_def Let_def)



lemma manual_box_fields:
  "crop_x (manual_box vx vy vw vh s)
     = clamp (real_of_int (or_default (parseInt vx) 0) / scale s) 0 (displayWidth s - 30)"
  "crop_y (manual_box vx vy vw vh s)
     = clamp (real_of_int (or_default (parseInt vy) 0) / scale s) 0 (displayHeight s - 30)"
  "crop_width (manual_box vx vy vw vh s)
     = clamp (real_of_int (or_default (parseInt vw) 100) / scale s) 30
         (displayWidth s - real_of_int (or_default (parseInt vx) 0) / scale s)"
  "crop_height (manual_box vx vy vw vh s)
     = clamp (real_of_int (or_default (parseInt vh) 100) / scale s) 30
         (displayHeight s - real_of_int (or_default (parseInt vy) 0) / scale s)"
  by (simp_all add: manual_box_def Let_def toDisplay_def)

lemma handleManualInput_free:
  "\<not> truthy (aspectRatio s) \<Longrightarrow>
   cropState (handleManualInput vx vy vw vh s) = manual_box vx vy vw vh s"
  by (simp add: handleManualInput_def Let_def)

lemma handleManualInput_locked:
  "aspectRatio s = Some r \<Longrightarrow> r \<noteq> 0 \<Longrightarrow>
   handleManualInput vx vy vw vh s = constrainCropBox (s\<lparr>cropState := manual_box vx vy vw vh s\<rparr>)"
  by (simp add: handleManualInput_def Let_def truthy_def)

lemma handleManualInput_toasts:
  "toasts (handleManualInput vx vy vw vh s) = toasts s"
  by (simp add: handleManualInput_def Let_def constrainCropBox_def split: option.splits)



section \<open>The geometry invariant under the interaction steps\<close>






section \<open>Resizing from a corner with a locked aspect ratio\<close>

text \<open>
  Claim C2, as the code has it. For a corner handle and a locked ratio \<open>r\<close>, let \<open>g1\<close>
  be the rectangle after the raw delta and the minimum-size block and \<open>g2\<close> the one
  after the aspect block. If \<open>width / height\<close> of \<open>g1\<close> exceeds \<open>r\<close> the width of
  \<open>g2\<close> is \<open>height * r\<close>, otherwise its height is \<open>width / r\<close>; \<open>width / height\<close> of
  \<open>g2\<close> is \<open>r\<close>; a left handle keeps the right edge of the snapshot and a top handle
  its lower edge, the other handles keep the left and upper edge. The result of the
  resize is \<open>g2\<close> passed through the bounds check and the final minimum-size floor, and
  has the ratio \<open>r\<close> whenever neither of the two changes \<open>g2\<close>.
\<close>

theorem resize_corner_locked_ratio:
  assumes "is_corner h" and "r \<noteq> 0"
    and "g1 = enforce_min h st (resize_switch h st dx dy)"
    and "g2 = enforce_aspect h (Some r) st g1"
  shows "(if r < crop_width g1 / crop_height g1
          then crop_width g2 = crop_height g1 * r \<and> crop_height g2 = crop_height g1
          else crop_height g2 = crop_width g1 / r \<and> crop_width g2 = crop_width g1) \<and>
         crop_width g2 / crop_height g2 = r \<and>
         (if includes_l h then crop_x g2 + crop_width g2 = crop_x st + crop_width st
          else crop_x g2 = crop_x st) \<and>
         (if includes_t h then crop_y g2 + crop_height g2 = crop_y st + crop_height st
          else crop_y g2 = crop_y st) \<and>
         resize_box h (Some r) dw dh st dx dy = final_min (bounds_check dw dh g2) \<and>
         (bounds_check dw dh g2 = g2 \<and> final_min g2 = g2 \<longrightarrow>
            crop_width (resize_box h (Some r) dw dh st dx dy)
              / crop_height (resize_box h (Some r) dw dh st dx dy) = r)"
proof -
  have w1: "30 \<le> crop_width g1" and h1: "30 \<le> crop_height g1"
    using enforce_min_horizontal[of h st dx dy] enforce_min_vertical[of h st dx dy] assms(3)
    by simp_all
  have hz: "if includes_l h then crop_x g1 + crop_width g1 = crop_x st + crop_width st
            else crop_x g1 = crop_x st"
    using enforce_min_horizontal[of h st dx dy] assms(3) by simp
  have vt: "if includes_t h then crop_y g1 + crop_height g1 = crop_y st + crop_height st
            else crop_y g1 = crop_y st"
    using enforce_min_vertical[of h st dx dy] assms(3) by simp
  have res: "resize_box h (Some r) dw dh st dx dy = final_min (bounds_check dw dh g2)"
    by (simp add: resize_box_def assms(3,4))
  have ratio: "crop_width g2 / crop_height g2 = r"
    unfolding assms(4) by (rule enforce_aspect_corner(2)[OF assms(1,2) w1 h1])
  show ?thesis
    using enforce_aspect_corner(1)[OF assms(1,2) w1 h1, of st]
      enforce_aspect_horizontal[OF hz, of "Some r"] enforce_aspect_vertical[OF vt, of "Some r"]
      ratio res
    unfolding assms(4)[symmetric] by simp
qed


text \<open>
  The ratio can be lost although the bounds check changes nothing: with 3:2 locked, the
  top-left handle moved 70 pixels to the right gives 30 x 20 after the aspect block,
  inside the display area, and the final minimum-size floor makes it 30 x 30.
\<close>

theorem resize_corner_locked_ratio_counterexample:
  "is_corner H_tl \<and>
   enforce_aspect H_tl (Some (3 / 2)) (startCrop example_module)
        (enforce_min H_tl (startCrop example_module)
           (resize_switch H_tl (startCrop example_module) 70 0))
     = \<lparr>crop_x = 170, crop_y = 580, crop_width = 30, crop_height = 20\<rparr> \<and>
   bounds_check 800 600 \<lparr>crop_x = 170, crop_y = 580, crop_width = 30, crop_height = 20\<rparr>
     = \<lparr>crop_x = 170, crop_y = 580, crop_width = 30, crop_height = 20\<rparr> \<and>
   resize_box H_tl (Some (3 / 2)) 800 600 (startCrop example_module) 70 0
     = \<lparr>crop_x = 170, crop_y = 580, crop_width = 30, crop_height = 30\<rparr> \<and>
   crop_width (resize_box H_tl (Some (3 / 2)) 800 600 (startCrop example_module) 70 0)
     / crop_height (resize_box H_tl (Some (3 / 2)) 800 600 (startCrop example_module) 70 0)
   \<noteq> 3 / 2"
  by (simp add: example_module_def resize_defs)

text \<open>The bottom-right handle with 1:1 locked, moved by (50, 20) on a 100 x 100 rectangle.\<close>

theorem resize_corner_locked_ratio_witness:
  "is_corner H_br \<and> (1::real) \<noteq> 0 \<and>
   bounds_check 800 600 \<lparr>crop_x = 100, crop_y = 100, crop_width = 120, crop_height = 120\<rparr>
     = \<lparr>crop_x = 100, crop_y = 100, crop_width = 120, crop_height = 120\<rparr> \<and>
   final_min \<lparr>crop_x = 100, crop_y = 100, crop_width = 120, crop_height = 120\<rparr>
     = \<lparr>crop_x = 100, crop_y = 100, crop_width = 120, crop_height = 120\<rparr> \<and>
   resize_box H_br (Some 1) 800 600
     \<lparr>crop_x = 100, crop_y = 100, crop_width = 100, crop_height = 100\<rparr> 50 20
     = \<lparr>crop_x = 100, crop_y = 100, crop_width = 120, crop_height = 120\<rparr> \<and>
   crop_width (resize_box H_br (Some 1) 800 600
      \<lparr>crop_x = 100, crop_y = 100, crop_width = 100, crop_height = 100\<rparr> 50 20)
     / crop_height (resize_box H_br (Some 1) 800 600
      \<lparr>crop_x = 100, crop_y = 100, crop_width = 100, crop_height = 100\<rparr> 50 20) = 1"
  using resize_corner_locked_ratio[of H_br 1
      "enforce_min H_br \<lparr>crop_x = 100, crop_y = 100, crop_width = 100, crop_height = 100\<rparr>
         (resize_switch H_br \<lparr>crop_x = 100, crop_y = 100, crop_width = 100, crop_height = 100\<rparr> 50 20)"
      "\<lparr>crop_x = 100, crop_y = 100, crop_width = 100, crop_height = 100\<rparr>" 50 20
      "enforce_aspect H_br (Some 1) \<lparr>crop_x = 100, crop_y = 100, crop_width = 100, crop_height = 100\<rparr>
        (enforce_min H_br \<lparr>crop_x = 100, crop_y = 100, crop_width = 100, crop_height = 100\<rparr>
         (resize_switch H_br \<lparr>crop_x = 100, crop_y = 100, crop_width = 100, crop_height = 100\<rparr> 50 20))"
      800 600]
  by (simp add: final_min_def bounds_check_def
      enforce_aspect_def enforce_min_def ratio_gt_def minSize_def Let_def)


section \<open>Drag gestures\<close>

text \<open>
  Claim C3. A drag gesture starts with the pointer going down at \<open>(px, py)\<close> inside the
  box, with the snapshot \<open>snap\<close> fully inside the display area, and consists of any
  number of move events, the last one at \<open>(qx, qy)\<close>. The resulting position is the
  snapshot position plus the delta \<open>(qx - px, qy - py)\<close>, clamped componentwise to
  \<open>[0, displayWidth - width]\<close> and \<open>[0, displayHeight - height]\<close>, and the width and
  height are those of the snapshot.
\<close>

theorem drag_gesture_position:
  assumes down: "s0 = handleMouseDown rect None px py s"
    and snap: "snap = cropState s"
    and inside: "0 \<le> crop_x snap" "0 \<le> crop_y snap"
      "crop_x snap + crop_width snap \<le> fst rect" "crop_y snap + crop_height snap \<le> snd rect"
    and delta: "dx = qx - px" "dy = qy - py"
  shows "\<exists>s'. handleMouseMoves (ps @ [(qx, qy)]) s0 = Some s' \<and>
           crop_x (cropState s') = clamp (crop_x snap + dx) 0 (fst rect - crop_width snap) \<and>
           crop_y (cropState s') = clamp (crop_y snap + dy) 0 (snd rect - crop_height snap) \<and>
           crop_x (cropState s') =
             (if crop_x snap + dx < 0 then 0
              else if fst rect - crop_width snap < crop_x snap + dx then fst rect - crop_width snap
              else crop_x snap + dx) \<and>
           crop_y (cropState s') =
             (if crop_y snap + dy < 0 then 0
              else if snd rect - crop_height snap < crop_y snap + dy then snd rect - crop_height snap
              else crop_y snap + dy) \<and>
           0 \<le> crop_x (cropState s') \<and> crop_x (cropState s') \<le> fst rect - crop_width snap \<and>
           0 \<le> crop_y (cropState s') \<and> crop_y (cropState s') \<le> snd rect - crop_height snap \<and>
           crop_width (cropState s') = crop_width snap \<and>
           crop_height (cropState s') = crop_height snap"
proof -
  have d0: "isDragging s0" by (simp add: down handleMouseDown_interior)
  from handleMouseMoves_drag[OF d0, of ps] obtain s1 where
    s1: "handleMouseMoves ps s0 = Some s1" "isDragging s1" "startCrop s1 = snap"
      "startX s1 = px" "startY s1 = py" "displayWidth s1 = fst rect" "displayHeight s1 = snd rect"
      "crop_width (cropState s1) = crop_width snap" "crop_height (cropState s1) = crop_height snap"
    by (auto simp: down snap handleMouseDown_interior)
  let ?s' = "moveCropBox dx dy s1"
  have run: "handleMouseMoves (ps @ [(qx, qy)]) s0 = Some ?s'"
    by (simp add: handleMouseMoves_snoc s1 handleMouseMove_drag delta)
  have xr: "0 \<le> fst rect - crop_width snap" and yr: "0 \<le> snd rect - crop_height snap"
    using inside by simp_all
  have px: "crop_x (cropState ?s') = clamp (crop_x snap + dx) 0 (fst rect - crop_width snap)"
    and py: "crop_y (cropState ?s') = clamp (crop_y snap + dy) 0 (snd rect - crop_height snap)"
    by (simp_all add: moveCropBox_position s1)
  have sz: "crop_width (cropState ?s') = crop_width snap"
    "crop_height (cropState ?s') = crop_height snap"
    by (simp_all add: moveCropBox_frame s1)
  show ?thesis
    using run px py sz clamp_cases[OF xr, of "crop_x snap + dx"]
      clamp_cases[OF yr, of "crop_y snap + dy"] xr yr
    by (intro exI[of _ ?s']) (simp split: if_splits)
qed


text \<open>Two gestures on the example session: one that runs into the upper right corner of
  the display area and one that stays inside.\<close>

theorem drag_gesture_position_witness:
  "0 \<le> crop_x (cropState example_module) \<and> 0 \<le> crop_y (cropState example_module) \<and>
   crop_x (cropState example_module) + crop_width (cropState example_module) \<le> fst (800::real, 600::real) \<and>
   crop_y (cropState example_module) + crop_height (cropState example_module) \<le> snd (800::real, 600::real) \<and>
   (\<exists>s'. handleMouseMoves ([(20, 30)] @ [(1000, - 700)])
           (handleMouseDown (800, 600) None 10 10 example_module) = Some s' \<and>
         cropState s' = \<lparr>crop_x = 700, crop_y = 0, crop_width = 100, crop_height = 100\<rparr>) \<and>
   (\<exists>s'. handleMouseMoves ([(20, 30)] @ [(40, - 90)])
           (handleMouseDown (800, 600) None 10 10 example_module) = Some s' \<and>
         cropState s' = \<lparr>crop_x = 130, crop_y = 400, crop_width = 100, crop_height = 100\<rparr>)"
proof -
  have h: "0 \<le> crop_x (cropState example_module)" "0 \<le> crop_y (cropState example_module)"
    "crop_x (cropState example_module) + crop_width (cropState example_module) \<le> fst (800::real, 600::real)"
    "crop_y (cropState example_module) + crop_height (cropState example_module) \<le> snd (800::real, 600::real)"
    by (simp_all add: example_module_def)
  have c: "cropState example_module
             = \<lparr>crop_x = 100, crop_y = 500, crop_width = 100, crop_height = 100\<rparr>"
    by (simp add: example_module_def)
  from drag_gesture_position[OF refl refl h refl refl,
        where ps = "[(20, 30)]" and qx = 1000 and qy = "- 700" and px = 10 and py = 10]
  obtain s1 where "handleMouseMoves ([(20, 30)] @ [(1000, - 700)])
           (handleMouseDown (800, 600) None 10 10 example_module) = Some s1"
    and "crop_x (cropState s1) = 700" and "crop_y (cropState s1) = 0"
    and "crop_width (cropState s1) = 100" and "crop_height (cropState s1) = 100"
    by (auto simp: c)
  then have far: "\<exists>s'. handleMouseMoves ([(20, 30)] @ [(1000, - 700)])
           (handleMouseDown (800, 600) None 10 10 example_module) = Some s' \<and>
         cropState s' = \<lparr>crop_x = 700, crop_y = 0, crop_width = 100, crop_height = 100\<rparr>"
    by simp
  from drag_gesture_position[OF refl refl h refl refl,
        where ps = "[(20, 30)]" and qx = 40 and qy = "- 90" and px = 10 and py = 10]
  obtain s2 where "handleMouseMoves ([(20, 30)] @ [(40, - 90)])
           (handleMouseDown (800, 600) None 10 10 example_module) = Some s2"
    and "crop_x (cropState s2) = 130" and "crop_y (cropState s2) = 400"
    and "crop_width (cropState s2) = 100" and "crop_height (cropState s2) = 100"
    by (auto simp: c)
  then have near: "\<exists>s'. handleMouseMoves ([(20, 30)] @ [(40, - 90)])
           (handleMouseDown (800, 600) None 10 10 example_module) = Some s' \<and>
         cropState s' = \<lparr>crop_x = 130, crop_y = 400, crop_width = 100, crop_height = 100\<rparr>"
    by simp
  show ?thesis
    using h far near by blast
qed


section \<open>Manual input\<close>

text \<open>
  What manual input guarantees. A field that \<open>parseInt\<close> cannot read (the empty text,
  text without a leading number) counts as 0 for a position and as 100 for a size. The
  values are divided by the scale. Without an aspect lock the position is \<open>clamp\<close>ed
  with the bounds 0 and \<open>displayDim - 30\<close> and the size with the bounds 30 and
  \<open>displayDim\<close> minus the converted position; the position lies between its bounds
  when the display is at least 30 pixels, and the size between its bounds when the
  converted position is at most \<open>displayDim - 30\<close>. With scale 2 on a display of
  800 x 600 and no aspect lock, the input x = 10, y = 10, width = 200, height = 150
  yields \<open>{x: 5, y: 5, width: 100, height: 75}\<close>.
\<close>

lemma manual_input_in_range:
  "(parseInt v = None \<longrightarrow> or_default (parseInt v) 0 = 0 \<and> or_default (parseInt v) 100 = 100) \<and>
   parseInt [] = None \<and> parseInt ''abc'' = None \<and>
   (\<not> truthy (aspectRatio s) \<longrightarrow>
      cropState (handleManualInput vx vy vw vh s) =
        \<lparr>crop_x = clamp (real_of_int (or_default (parseInt vx) 0) / scale s) 0 (displayWidth s - 30),
         crop_y = clamp (real_of_int (or_default (parseInt vy) 0) / scale s) 0 (displayHeight s - 30),
         crop_width = clamp (real_of_int (or_default (parseInt vw) 100) / scale s) 30
                        (displayWidth s - real_of_int (or_default (parseInt vx) 0) / scale s),
         crop_height = clamp (real_of_int (or_default (parseInt vh) 100) / scale s) 30
                        (displayHeight s - real_of_int (or_default (parseInt vy) 0) / scale s)\<rparr>) \<and>
   (\<not> truthy (aspectRatio s) \<and> 30 \<le> displayWidth s \<and> 30 \<le> displayHeight s \<longrightarrow>
      0 \<le> crop_x (cropState (handleManualInput vx vy vw vh s)) \<and>
      crop_x (cropState (handleManualInput vx vy vw vh s)) \<le> displayWidth s - 30 \<and>
      0 \<le> crop_y (cropState (handleManualInput vx vy vw vh s)) \<and>
      crop_y (cropState (handleManualInput vx vy vw vh s)) \<le> displayHeight s - 30) \<and>
   (\<not> truthy (aspectRatio s) \<and>
    30 \<le> displayWidth s - real_of_int (or_default (parseInt vx) 0) / scale s \<longrightarrow>
      30 \<le> crop_width (cropState (handleManualInput vx vy vw vh s)) \<and>
      crop_width (cropState (handleManualInput vx vy vw vh s))
        \<le> displayWidth s - real_of_int (or_default (parseInt vx) 0) / scale s) \<and>
   (\<not> truthy (aspectRatio s) \<and>
    30 \<le> displayHeight s - real_of_int (or_default (parseInt vy) 0) / scale s \<longrightarrow>
      30 \<le> crop_height (cropState (handleManualInput vx vy vw vh s)) \<and>
      crop_height (cropState (handleManualInput vx vy vw vh s))
        \<le> displayHeight s - real_of_int (or_default (parseInt vy) 0) / scale s) \<and>
   (\<not> truthy (aspectRatio s) \<and> scale s = 2 \<and> displayWidth s = 800 \<and> displayHeight s = 600 \<longrightarrow>
      cropState (handleManualInput ''10'' ''10'' ''200'' ''150'' s) =
        \<lparr>crop_x = 5, crop_y = 5, crop_width = 100, crop_height = 75\<rparr>)"
proof -
  have p: "parseInt [] = None" "parseInt ''abc'' = None"
    "parseInt ''10'' = Some 10" "parseInt ''200'' = Some 200" "parseInt ''150'' = Some 150"
    by (simp_all add: parseInt_def is_space_def is_digit_def digit_val_def)
  have box: "\<not> truthy (aspectRatio s) \<Longrightarrow>
      cropState (handleManualInput vx vy vw vh s) =
        \<lparr>crop_x = crop_x (manual_box vx vy vw vh s), crop_y = crop_y (manual_box vx vy vw vh s),
         crop_width = crop_width (manual_box vx vy vw vh s),
         crop_height = crop_height (manual_box vx vy vw vh s)\<rparr>" for vx vy vw vh
    by (simp add: handleManualInput_free)
  have ex: "\<not> truthy (aspectRatio s) \<and> scale s = 2 \<and> displayWidth s = 800 \<and> displayHeight s = 600 \<longrightarrow>
      cropState (handleManualInput ''10'' ''10'' ''200'' ''150'' s) =
        \<lparr>crop_x = 5, crop_y = 5, crop_width = 100, crop_height = 75\<rparr>"
    by (simp add: box manual_box_fields p or_default_def clamp_def)
  have pos: "\<not> truthy (aspectRatio s) \<and> 30 \<le> displayWidth s \<and> 30 \<le> displayHeight s \<longrightarrow>
      0 \<le> crop_x (cropState (handleManualInput vx vy vw vh s)) \<and>
      crop_x (cropState (handleManualInput vx vy vw vh s)) \<le> displayWidth s - 30 \<and>
      0 \<le> crop_y (cropState (handleManualInput vx vy vw vh s)) \<and>
      crop_y (cropState (handleManualInput vx vy vw vh s)) \<le> displayHeight s - 30"
    by (simp add: handleManualInput_free manual_box_fields clamp_within)
  have wd: "\<not> truthy (aspectRatio s) \<and>
    30 \<le> displayWidth s - real_of_int (or_default (parseInt vx) 0) / scale s \<longrightarrow>
      30 \<le> crop_width (cropState (handleManualInput vx vy vw vh s)) \<and>
      crop_width (cropState (handleManualInput vx vy vw vh s))
        \<le> displayWidth s - real_of_int (or_default (parseInt vx) 0) / scale s"
    by (simp add: handleManualInput_free manual_box_fields clamp_within)
  have ht: "\<not> truthy (aspectRatio s) \<and>
    30 \<le> displayHeight s - real_of_int (or_default (parseInt vy) 0) / scale s \<longrightarrow>
      30 \<le> crop_height (cropState (handleManualInput vx vy vw vh s)) \<and>
      crop_height (cropState (handleManualInput vx vy vw vh s))
        \<le> displayHeight s - real_of_int (or_default (parseInt vy) 0) / scale s"
    by (simp add: handleManualInput_free manual_box_fields clamp_within)
  have dflt: "parseInt v = None \<longrightarrow> or_default (parseInt v) 0 = 0 \<and> or_default (parseInt v) 100 = 100"
    by (simp add: or_default_def)
  have gen: "\<not> truthy (aspectRatio s) \<longrightarrow>
      cropState (handleManualInput vx vy vw vh s) =
        \<lparr>crop_x = clamp (real_of_int (or_default (parseInt vx) 0) / scale s) 0 (displayWidth s - 30),
         crop_y = clamp (real_of_int (or_default (parseInt vy) 0) / scale s) 0 (displayHeight s - 30),
         crop_width = clamp (real_of_int (or_default (parseInt vw) 100) / scale s) 30
                        (displayWidth s - real_of_int (or_default (parseInt vx) 0) / scale s),
         crop_height = clamp (real_of_int (or_default (parseInt vh) 100) / scale s) 30
                        (displayHeight s - real_of_int (or_default (parseInt vy) 0) / scale s)\<rparr>"
    by (simp add: box manual_box_fields)
  show ?thesis
    using dflt p(1,2) gen pos wd ht ex by blast
qed

lemma manual_input_in_range_example:
  "parseInt [] = None \<and> or_default (parseInt []) 0 = 0 \<and> or_default (parseInt []) 100 = 100 \<and>
   \<not> truthy (aspectRatio example_module) \<and> scale example_module = 2 \<and>
   displayWidth example_module = 800 \<and> displayHeight example_module = 600 \<and>
   30 \<le> displayWidth example_module - real_of_int (or_default (parseInt ''10'') 0) / scale example_module \<and>
   30 \<le> displayHeight example_module - real_of_int (or_default (parseInt ''10'') 0) / scale example_module \<and>
   cropState (handleManualInput ''10'' ''10'' ''200'' ''150'' example_module) =
     \<lparr>crop_x = 5, crop_y = 5, crop_width = 100, crop_height = 75\<rparr>"
proof -
  have p: "parseInt ''10'' = Some 10" "parseInt ''200'' = Some 200" "parseInt ''150'' = Some 150"
    by (simp_all add: parseInt_def is_space_def is_digit_def digit_val_def)
  have h: "\<not> truthy (aspectRatio example_module) \<and> scale example_module = 2 \<and>
     displayWidth example_module = 800 \<and> displayHeight example_module = 600"
    by (simp add: example_module_def truthy_def)
  show ?thesis
    using manual_input_in_range[of "[]" example_module "''10''" "''10''" "''200''" "''150''"] h
    by (simp add: p or_default_def clamp_def)
qed


text \<open>
  Claim C4 says that manual input clamps the size on each axis to
  \<open>[30, displayDim - position]\<close>. The source bounds the size by \<open>displayDim\<close> minus
  the converted position as typed, not the clamped position it stores, so the stored
  size leaves that interval as soon as the typed position lies outside
  \<open>[0, displayDim - 30]\<close>. In the example session (scale 2, display 800 x 600, no
  aspect lock) the input x = 1600 stores x = 770 with the width 0, below 30, and the
  input x = -10, width = 5000 stores x = 0 with the width 805, more than 800 - 0. The
  other parts of the claim hold, as shown above.
\<close>

theorem manual_input_size_outside_interval:
  "\<not> truthy (aspectRatio example_module) \<and>
   cropState (handleManualInput ''1600'' ''10'' ''200'' ''150'' example_module)
     = \<lparr>crop_x = 770, crop_y = 5, crop_width = 0, crop_height = 75\<rparr> \<and>
   crop_width (cropState (handleManualInput ''1600'' ''10'' ''200'' ''150'' example_module)) < 30 \<and>
   cropState (handleManualInput ''-10'' ''10'' ''5000'' ''150'' example_module)
     = \<lparr>crop_x = 0, crop_y = 5, crop_width = 805, crop_height = 75\<rparr> \<and>
   displayWidth example_module
       - crop_x (cropState (handleManualInput ''-10'' ''10'' ''5000'' ''150'' example_module))
     < crop_width (cropState (handleManualInput ''-10'' ''10'' ''5000'' ''150'' example_module))"
  by (simp add: example_module_def handleManualInput_def manual_box_def parse_defs clamp_def
      toDisplay_def truthy_def)

text \<open>
  Claim C5, as the code has it. With an aspect ratio \<open>r\<close> active, manual input
  re-derives one side of the clamped rectangle \<open>g\<close> by the comparison that resizing
  uses: if \<open>width / height\<close> of \<open>g\<close> exceeds \<open>r\<close> the width becomes \<open>height * r\<close>
  and the height stays, otherwise the height becomes \<open>width / r\<close> and the width stays.
  The position of \<open>g\<close> is kept unless the rectangle would pass the right or lower edge
  of the display area; then it is moved back, and not below 0.
\<close>

theorem manual_input_locked_rederive:
  assumes "aspectRatio s = Some r" and "r \<noteq> 0"
    and "g = manual_box vx vy vw vh s"
    and "g' = cropState (handleManualInput vx vy vw vh s)"
  shows "(if ratio_gt (crop_width g) (crop_height g) r
          then crop_width g' = crop_height g * r \<and> crop_height g' = crop_height g
          else crop_width g' = crop_width g \<and> crop_height g' = crop_width g / r) \<and>
         crop_x g' = max 0 (if displayWidth s < crop_x g + crop_width g'
                            then displayWidth s - crop_width g' else crop_x g) \<and>
         crop_y g' = max 0 (if displayHeight s < crop_y g + crop_height g'
                            then displayHeight s - crop_height g' else crop_y g)"
proof -
  let ?s1 = "s\<lparr>cropState := manual_box vx vy vw vh s\<rparr>"
  have a: "aspectRatio ?s1 = Some r" using assms(1) by simp
  have g': "g' = cropState (constrainCropBox ?s1)"
    by (simp add: assms(4) handleManualInput_locked[OF assms(1,2)])
  show ?thesis
    using constrainCropBox_size[OF a assms(2)] constrainCropBox_position[OF a assms(2)]
    by (simp add: g' assms(3))
qed


text \<open>
  The height is not always recomputed from the width: with 1:1 active, typing
  width = 400 and height = 200 at scale 2 gives the clamped rectangle 200 x 100 and the
  result 100 x 100, so the width was derived from the height.
\<close>

theorem manual_input_locked_rederive_counterexample:
  "manual_box ''10'' ''10'' ''400'' ''200'' (example_module\<lparr>aspectRatio := Some 1\<rparr>)
     = \<lparr>crop_x = 5, crop_y = 5, crop_width = 200, crop_height = 100\<rparr> \<and>
   cropState (handleManualInput ''10'' ''10'' ''400'' ''200'' (example_module\<lparr>aspectRatio := Some 1\<rparr>))
     = \<lparr>crop_x = 5, crop_y = 5, crop_width = 100, crop_height = 100\<rparr> \<and>
   crop_height (cropState (handleManualInput ''10'' ''10'' ''400'' ''200''
                  (example_module\<lparr>aspectRatio := Some 1\<rparr>)))
     \<noteq> crop_width (manual_box ''10'' ''10'' ''400'' ''200''
                      (example_module\<lparr>aspectRatio := Some 1\<rparr>)) / 1 \<and>
   crop_width (cropState (handleManualInput ''10'' ''10'' ''400'' ''200''
                  (example_module\<lparr>aspectRatio := Some 1\<rparr>)))
     \<noteq> crop_width (manual_box ''10'' ''10'' ''400'' ''200''
                      (example_module\<lparr>aspectRatio := Some 1\<rparr>))"
  by (simp add: example_module_def handleManualInput_def constrainCropBox_def manual_box_def
      parse_defs clamp_def toDisplay_def truthy_def ratio_gt_def)

theorem manual_input_locked_rederive_witness:
  "aspectRatio (example_module\<lparr>aspectRatio := Some 1\<rparr>) = Some 1 \<and> (1::real) \<noteq> 0 \<and>
   ratio_gt 200 100 1 \<and>
   crop_width (cropState (handleManualInput ''10'' ''10'' ''400'' ''200''
                  (example_module\<lparr>aspectRatio := Some 1\<rparr>))) = 100 * 1 \<and>
   crop_height (cropState (handleManualInput ''10'' ''10'' ''400'' ''200''
                  (example_module\<lparr>aspectRatio := Some 1\<rparr>))) = 100 \<and>
   crop_x (cropState (handleManualInput ''10'' ''10'' ''400'' ''200''
                  (example_module\<lparr>aspectRatio := Some 1\<rparr>))) = 5 \<and>
   crop_y (cropState (handleManualInput ''10'' ''10'' ''400'' ''200''
                  (example_module\<lparr>aspectRatio := Some 1\<rparr>))) = 5"
proof -
  have g: "manual_box ''10'' ''10'' ''400'' ''200'' (example_module\<lparr>aspectRatio := Some 1\<rparr>)
     = \<lparr>crop_x = 5, crop_y = 5, crop_width = 200, crop_height = 100\<rparr>"
    by (simp add: example_module_def manual_box_def parse_defs clamp_def toDisplay_def)
  have d: "displayWidth (example_module\<lparr>aspectRatio := Some 1\<rparr>) = 800"
    "displayHeight (example_module\<lparr>aspectRatio := Some 1\<rparr>) = 600"
    by (simp_all add: example_module_def)
  show ?thesis
    using manual_input_locked_rederive[of "example_module\<lparr>aspectRatio := Some 1\<rparr>" 1
        "manual_box ''10'' ''10'' ''400'' ''200'' (example_module\<lparr>aspectRatio := Some 1\<rparr>)"
        "''10''" "''10''" "''400''" "''200''"
        "cropState (handleManualInput ''10'' ''10'' ''400'' ''200''
                  (example_module\<lparr>aspectRatio := Some 1\<rparr>))"]
    by (simp add: g d ratio_gt_def split: if_splits)
qed


text \<open>
  Claim C10. \<open>clamp(value, min, max)\<close> is \<open>min(max(value, min), max)\<close> and returns
  \<open>max\<close> whenever \<open>max < min\<close>. So when the converted position typed for an axis
  exceeds \<open>displayDim - 30\<close>, the size stored for that axis is \<open>displayDim - position\<close>,
  below 30, and it is negative when the position exceeds \<open>displayDim\<close>; the input is
  accepted and no toast is shown.
\<close>

theorem clamp_inverted_interval:
  "clamp v lo hi = min (max v lo) hi \<and>
   (hi < lo \<longrightarrow> clamp v lo hi = hi) \<and>
   (\<not> truthy (aspectRatio s) \<and>
    displayWidth s - 30 < real_of_int (or_default (parseInt vx) 0) / scale s \<longrightarrow>
      crop_width (cropState (handleManualInput vx vy vw vh s))
        = displayWidth s - real_of_int (or_default (parseInt vx) 0) / scale s \<and>
      crop_width (cropState (handleManualInput vx vy vw vh s)) < 30) \<and>
   (\<not> truthy (aspectRatio s) \<and>
    displayHeight s - 30 < real_of_int (or_default (parseInt vy) 0) / scale s \<longrightarrow>
      crop_height (cropState (handleManualInput vx vy vw vh s))
        = displayHeight s - real_of_int (or_default (parseInt vy) 0) / scale s \<and>
      crop_height (cropState (handleManualInput vx vy vw vh s)) < 30) \<and>
   (\<not> truthy (aspectRatio s) \<and>
    displayWidth s < real_of_int (or_default (parseInt vx) 0) / scale s \<longrightarrow>
      crop_width (cropState (handleManualInput vx vy vw vh s)) < 0) \<and>
   (\<not> truthy (aspectRatio s) \<and>
    displayHeight s < real_of_int (or_default (parseInt vy) 0) / scale s \<longrightarrow>
      crop_height (cropState (handleManualInput vx vy vw vh s)) < 0) \<and>
   toasts (handleManualInput vx vy vw vh s) = toasts s"
  by (simp add: handleManualInput_free manual_box_fields clamp_bounds_inverted handleManualInput_toasts)
     (simp add: clamp_def)

theorem clamp_inverted_interval_witness:
  "clamp 100 30 (-200) = -200 \<and>
   \<not> truthy (aspectRatio example_module) \<and>
   displayWidth example_module - 30
     < real_of_int (or_default (parseInt ''1600'') 0) / scale example_module \<and>
   crop_width (cropState (handleManualInput ''1600'' ''10'' ''200'' ''150'' example_module)) = 0 \<and>
   displayWidth example_module
     < real_of_int (or_default (parseInt ''2000'') 0) / scale example_module \<and>
   crop_width (cropState (handleManualInput ''2000'' ''10'' ''200'' ''150'' example_module)) = - 200 \<and>
   displayHeight example_module
     < real_of_int (or_default (parseInt ''1300'') 0) / scale example_module \<and>
   crop_height (cropState (handleManualInput ''10'' ''1300'' ''200'' ''150'' example_module)) = - 50 \<and>
   toasts (handleManualInput ''2000'' ''10'' ''200'' ''150'' example_module) = []"
proof -
  have p: "parseInt ''1600'' = Some 1600" "parseInt ''2000'' = Some 2000"
    "parseInt ''1300'' = Some 1300" "parseInt ''10'' = Some 10"
    by (simp_all add: parseInt_def is_space_def is_digit_def digit_val_def)
  have h: "\<not> truthy (aspectRatio example_module)" "scale example_module = 2"
     "displayWidth example_module = 800" "displayHeight example_module = 600"
     "toasts example_module = []"
    by (simp_all add: example_module_def truthy_def)
  show ?thesis
    using clamp_inverted_interval[of 100 30 "-200" example_module "''1600''" "''10''" "''200''" "''150''"]
      clamp_inverted_interval[of 100 30 "-200" example_module "''2000''" "''10''" "''200''" "''150''"]
      clamp_inverted_interval[of 100 30 "-200" example_module "''10''" "''1300''" "''200''" "''150''"]
    by (simp add: p h or_default_def)
qed


section \<open>Coordinate transform\<close>

text \<open>
  Claim C9. For a positive scale, converting a display coordinate to source pixels and
  back returns it. The scale that \<open>recalculateScale\<close> stores is positive, and is
  \<open>imageWidth / displayWidth\<close> when both are positive, so the round trip holds for it.
  Over the reals the identity is exact.
\<close>

theorem coordinate_round_trip:
  "(0 < sc \<longrightarrow> toDisplay sc (toSource sc p) = p) \<and>
   0 < scale (recalculateScale rect s) \<and>
   (0 < fst rect \<and> 0 < imageWidth s \<longrightarrow>
      scale (recalculateScale rect s) = real_of_int (imageWidth s) / fst rect) \<and>
   toDisplay (scale (recalculateScale rect s)) (toSource (scale (recalculateScale rect s)) p) = p"
  by (simp add: toDisplay_def toSource_def recalculateScale_def)

theorem coordinate_round_trip_witness:
  "(0::real) < 2 \<and> toDisplay 2 (toSource 2 5) = 5 \<and>
   0 < fst (800::real, 600::real) \<and> 0 < imageWidth example_module \<and>
   scale (recalculateScale (800, 600) example_module) = 2 \<and>
   toDisplay (scale (recalculateScale (800, 600) example_module))
     (toSource (scale (recalculateScale (800, 600) example_module)) 5) = 5"
  using coordinate_round_trip[of 2 5 "(800, 600)" example_module]
  by (simp add: example_module_def)


section \<open>Tool sessions\<close>

subsection \<open>Auxiliary facts\<close>

lemma applyCrop_requests_filename:
  "q \<in> set (applyCrop_requests s) \<Longrightarrow> uploadedFilename s = Some (req_filename q)"
  by (auto simp: applyCrop_requests_def crop_request_of_def Let_def split: option.splits if_splits)

lemma applyCrop_requests_sent:
  "uploadedFilename s = Some f \<Longrightarrow> f \<noteq> [] \<Longrightarrow>
   \<exists>q. applyCrop_requests s = [q] \<and> req_filename q = f"
  by (simp add: applyCrop_requests_def crop_request_of_def Let_def)

lemma applyCrop_server_cong:
  "(\<forall>q \<in> set (applyCrop_requests s). server q = server' q) \<Longrightarrow>
   applyCrop server s = applyCrop server' s"
  by (auto simp: applyCrop_requests_def applyCrop_def cropImageAPI_def Let_def
      split: option.splits)

lemma applyCrop_success:
  assumes "applyCrop_requests s = [q]" and "server q = Resp_ok r"
  shows "applyCrop server s =
           s\<lparr>uploadedFilename := Some (res_filename r),
             imageWidth := res_width r, imageHeight := res_height r,
             downloadBtnDisabled := False,
             toasts := toasts s @ [(''Cropping image...'', ''info''),
                                   (''Image cropped successfully!'', ''success'')]\<rparr>"
  using assms
  by (auto simp: applyCrop_requests_def applyCrop_def cropImageAPI_def showToast_def Let_def
      split: option.splits if_splits)

lemma applyCrop_failure:
  assumes "applyCrop_requests s = [q]" and "cropImageAPI server q = Inl m"
  shows "applyCrop server s =
           s\<lparr>toasts := toasts s @ [(''Cropping image...'', ''info''),
                                   (''Crop failed: '' @ m, ''error'')]\<rparr>"
  using assms
  by (auto simp: applyCrop_requests_def applyCrop_def showToast_def Let_def
      split: option.splits if_splits)

lemma applyCrop_requests_toasts:
  "applyCrop_requests (s\<lparr>toasts := ts\<rparr>) = applyCrop_requests s"
  by (simp add: applyCrop_requests_def crop_request_of_def Let_def split: option.splits)

lemma cropImageAPI_failure:
  "server q = Resp_error d \<Longrightarrow> cropImageAPI server q = Inl (detail_or d ''Crop failed'')"
  "server q = Fetch_rejected m \<Longrightarrow> cropImageAPI server q = Inl m"
  by (simp_all add: cropImageAPI_def)

lemma upscaleImage_failure:
  "server (f, n) = Resp_error d \<Longrightarrow> upscaleImage server f n = Inl (detail_or d ''Upscale failed'')"
  "server (f, n) = Fetch_rejected m \<Longrightarrow> upscaleImage server f n = Inl m"
  by (simp_all add: upscaleImage_def)

lemma detail_or_present: "m \<noteq> [] \<Longrightarrow> detail_or (Some m) fallback = m"
  by (simp add: detail_or_def)

lemma processUpscale_failure:
  assumes "processUpscale_requests u = [p]" and "upscaleImage server (fst p) (snd p) = Inl m"
  shows "processUpscale server loaded u =
           u\<lparr>comparisonHidden := True, loadingHidden := True, upscaleBtnDisabled := False,
             up_toasts := up_toasts u @
               [(''Upscaling image '' @ int_text (selectedScale u) @ ''x... This may take a moment.'',
                 ''info''),
                (''Upscale failed: '' @ m, ''error'')]\<rparr>"
  using assms
  by (auto simp: processUpscale_requests_def processUpscale_def showToast_def Let_def
      split: option.splits if_splits)

lemma processUpscale_requests_frame:
  "processUpscale_requests
     (u\<lparr>comparisonHidden := a, loadingHidden := b, upscaleBtnDisabled := c, up_toasts := ts\<rparr>)
   = processUpscale_requests u"
  by (simp add: processUpscale_requests_def split: option.splits)

lemma too_large_4_8: "too_large w h 4 \<Longrightarrow> too_large w h 8"
  by (auto simp: too_large_def)

lemma check_scales_cards:
  "card8Enabled (check_scales s) = (\<not> too_large (originalWidth s) (originalHeight s) 8)"
  "card4Enabled (check_scales s) = (\<not> too_large (originalWidth s) (originalHeight s) 4)"
  "card2Enabled (check_scales s) = card2Enabled s"
  by (simp_all add: check_scales_def Let_def)

lemma check_scales_selected:
  "selectedScale (check_scales s) =
     (if selectedScale s = 8 \<and> too_large (originalWidth s) (originalHeight s) 8
      then (if too_large (originalWidth s) (originalHeight s) 4 then 2 else 4)
      else if selectedScale s = 4 \<and> too_large (originalWidth s) (originalHeight s) 4 then 2
      else selectedScale s)"
  by (simp add: check_scales_def Let_def)

lemma check_scales_active:
  "selectedScale (check_scales s) \<noteq> selectedScale s \<Longrightarrow>
   activeCard (check_scales s) = Some (selectedScale (check_scales s))"
  by (simp add: check_scales_def Let_def split: if_splits)

lemma handleFileSelect_valid:
  assumes "fst (validateFile f (up_toasts s))"
  shows "selectedScale (handleFileSelect f dims outcome s)
           = selectedScale (check_scales (s\<lparr>originalWidth := fst dims, originalHeight := snd dims\<rparr>))"
    and "activeCard (handleFileSelect f dims outcome s)
           = activeCard (check_scales (s\<lparr>originalWidth := fst dims, originalHeight := snd dims\<rparr>))"
    and "card8Enabled (handleFileSelect f dims outcome s)
           = card8Enabled (check_scales (s\<lparr>originalWidth := fst dims, originalHeight := snd dims\<rparr>))"
    and "card4Enabled (handleFileSelect f dims outcome s)
           = card4Enabled (check_scales (s\<lparr>originalWidth := fst dims, originalHeight := snd dims\<rparr>))"
    and "card2Enabled (handleFileSelect f dims outcome s)
           = card2Enabled (check_scales (s\<lparr>originalWidth := fst dims, originalHeight := snd dims\<rparr>))"
  using assms
  by (auto simp: handleFileSelect_def Let_def split: prod.splits bool.splits sum.splits)


subsection \<open>Scale options after an upload\<close>

text \<open>
  Claim C6, as the code has it. After an upload that passes \<open>validateFile\<close>, the 8x
  card is enabled exactly when 8x does not exceed 10000 pixels on either axis, and
  likewise the 4x card; the 2x card is left as it was. A selected 8x that became too
  large is demoted to 4x, a selected (or just demoted) 4x that is too large to 2x, and
  the demoted selection is the active card; the selection that results is an enabled
  card when the 2x card is. In particular, a 20000 x 20000 upload with 8x selected
  disables 8x and 4x and ends with 2x selected.
\<close>

theorem upload_disables_oversized_scales:
  assumes "fst (validateFile f (up_toasts s))"
    and "s' = handleFileSelect f (w, h) outcome s"
  shows "card8Enabled s' = (\<not> too_large w h 8) \<and>
         card4Enabled s' = (\<not> too_large w h 4) \<and>
         card2Enabled s' = card2Enabled s \<and>
         selectedScale s' =
           (if selectedScale s = 8 \<and> too_large w h 8
            then (if too_large w h 4 then 2 else 4)
            else if selectedScale s = 4 \<and> too_large w h 4 then 2
            else selectedScale s) \<and>
         (selectedScale s' \<noteq> selectedScale s \<longrightarrow> activeCard s' = Some (selectedScale s')) \<and>
         (card2Enabled s \<and> selectedScale s \<in> {2, 4, 8} \<longrightarrow> card_enabled (selectedScale s') s') \<and>
         (w = 20000 \<and> h = 20000 \<and> selectedScale s = 8 \<longrightarrow>
            \<not> card8Enabled s' \<and> \<not> card4Enabled s' \<and> selectedScale s' = 2 \<and>
            activeCard s' = Some 2)"
proof -
  let ?t = "s\<lparr>originalWidth := fst (w, h), originalHeight := snd (w, h)\<rparr>"
  note v = handleFileSelect_valid[OF assms(1), of "(w, h)" outcome, folded assms(2)]
  have c8: "card8Enabled s' = (\<not> too_large w h 8)"
    and c4: "card4Enabled s' = (\<not> too_large w h 4)"
    and c2: "card2Enabled s' = card2Enabled s"
    by (simp_all add: v check_scales_cards)
  have sel: "selectedScale s' =
           (if selectedScale s = 8 \<and> too_large w h 8
            then (if too_large w h 4 then 2 else 4)
            else if selectedScale s = 4 \<and> too_large w h 4 then 2
            else selectedScale s)"
    by (simp add: v check_scales_selected)
  have act: "selectedScale s' \<noteq> selectedScale s \<longrightarrow> activeCard s' = Some (selectedScale s')"
    using check_scales_active[of ?t] by (simp add: v)
  have en: "card2Enabled s \<and> selectedScale s \<in> {2, 4, 8} \<longrightarrow> card_enabled (selectedScale s') s'"
    using too_large_4_8[of w h] by (auto simp: card_enabled_def c8 c4 c2 sel)
  have big: "too_large 20000 20000 8" "too_large 20000 20000 4"
    by (simp_all add: too_large_def)
  have ex: "w = 20000 \<and> h = 20000 \<and> selectedScale s = 8 \<longrightarrow>
            \<not> card8Enabled s' \<and> \<not> card4Enabled s' \<and> selectedScale s' = 2 \<and>
            activeCard s' = Some 2"
    using act by (auto simp: c8 c4 sel big)
  show ?thesis using c8 c4 c2 sel act en ex by blast
qed


text \<open>
  Not every oversized option is disabled: for the 20000 x 20000 upload 2x projects to
  40000 pixels, and the 2x card stays enabled.
\<close>

theorem upload_disables_oversized_scales_counterexample:
  "too_large 20000 20000 2 \<and>
   card2Enabled (handleFileSelect example_file (20000, 20000) (Resp_ok ''u.png'')
                   (upscale_init\<lparr>selectedScale := 8, activeCard := Some 8\<rparr>)) \<and>
   card_enabled 2 (handleFileSelect example_file (20000, 20000) (Resp_ok ''u.png'')
                   (upscale_init\<lparr>selectedScale := 8, activeCard := Some 8\<rparr>))"
  by (simp add: too_large_def handleFileSelect_def validateFile_def example_file_def
      upscale_init_def check_scales_def uploadFile_def showToast_def card_enabled_def Let_def)


text \<open>The 20000 x 20000 upload with 8x selected.\<close>

theorem upload_disables_oversized_scales_witness:
  "fst (validateFile example_file (up_toasts (upscale_init\<lparr>selectedScale := 8, activeCard := Some 8\<rparr>))) \<and>
   \<not> card8Enabled (handleFileSelect example_file (20000, 20000) (Resp_ok ''u.png'')
                   (upscale_init\<lparr>selectedScale := 8, activeCard := Some 8\<rparr>)) \<and>
   \<not> card4Enabled (handleFileSelect example_file (20000, 20000) (Resp_ok ''u.png'')
                   (upscale_init\<lparr>selectedScale := 8, activeCard := Some 8\<rparr>)) \<and>
   selectedScale (handleFileSelect example_file (20000, 20000) (Resp_ok ''u.png'')
                   (upscale_init\<lparr>selectedScale := 8, activeCard := Some 8\<rparr>)) = 2 \<and>
   activeCard (handleFileSelect example_file (20000, 20000) (Resp_ok ''u.png'')
                   (upscale_init\<lparr>selectedScale := 8, activeCard := Some 8\<rparr>)) = Some 2 \<and>
   card_enabled 2 (handleFileSelect example_file (20000, 20000) (Resp_ok ''u.png'')
                   (upscale_init\<lparr>selectedScale := 8, activeCard := Some 8\<rparr>))"
proof -
  have v: "fst (validateFile example_file
                  (up_toasts (upscale_init\<lparr>selectedScale := 8, activeCard := Some 8\<rparr>)))"
    by (simp add: validateFile_def example_file_def)
  have i: "selectedScale (upscale_init\<lparr>selectedScale := 8, activeCard := Some 8\<rparr>) = 8"
    "card2Enabled (upscale_init\<lparr>selectedScale := 8, activeCard := Some 8\<rparr>)"
    by (simp_all add: upscale_init_def)
  show ?thesis
    using upload_disables_oversized_scales[OF v refl, of 20000 20000 "Resp_ok ''u.png''"] v i
    by (auto simp: too_large_def)
qed


subsection \<open>Chained cropping\<close>

text \<open>
  Claim C7. When \<open>applyCrop\<close> sends its request \<open>q\<close> for the current asset \<open>a\<close> and
  the server answers with a 2xx response \<open>r\<close>, the file name of \<open>r\<close> becomes
  \<open>uploadedFilename\<close>, and every request of a following \<open>applyCrop\<close> names that
  file, not \<open>a\<close>; such a request is sent when the name is not empty, and the following
  \<open>applyCrop\<close> depends on the server through that request only.
\<close>

theorem crop_chain_targets_latest_result:
  assumes "uploadedFilename s = Some a" and "a \<noteq> []"
    and "applyCrop_requests s = [q]" and "server q = Resp_ok r"
    and "s' = applyCrop server s"
  shows "req_filename q = a \<and>
         uploadedFilename s' = Some (res_filename r) \<and>
         (\<forall>q' \<in> set (applyCrop_requests s'). req_filename q' = res_filename r) \<and>
         (res_filename r \<noteq> [] \<longrightarrow>
            (\<exists>q'. applyCrop_requests s' = [q'] \<and> req_filename q' = res_filename r)) \<and>
         (\<forall>server'. (\<forall>q' \<in> set (applyCrop_requests s'). server' q' = server q') \<longrightarrow>
            applyCrop server' s' = applyCrop server s')"
proof -
  have s': "uploadedFilename s' = Some (res_filename r)"
    using applyCrop_success[of s q server r] assms(3,4,5) by simp
  have qa: "req_filename q = a"
    using applyCrop_requests_filename[of q s] assms(1,3) by simp
  have all: "\<forall>q' \<in> set (applyCrop_requests s'). req_filename q' = res_filename r"
    using applyCrop_requests_filename[of _ s'] s' by auto
  have one: "res_filename r \<noteq> [] \<longrightarrow>
            (\<exists>q'. applyCrop_requests s' = [q'] \<and> req_filename q' = res_filename r)"
    using applyCrop_requests_sent[OF s'] by simp
  have cong: "\<forall>server'. (\<forall>q' \<in> set (applyCrop_requests s'). server' q' = server q') \<longrightarrow>
            applyCrop server' s' = applyCrop server s'"
    using applyCrop_server_cong[of s'] by blast
  show ?thesis using qa s' all one cong by blast
qed


text \<open>Cropping \<open>a.png\<close> in the example session gives \<open>b.png\<close>; the next crop asks for
  \<open>b.png\<close>.\<close>

theorem crop_chain_targets_latest_result_witness:
  "uploadedFilename example_module = Some ''a.png'' \<and> ''a.png'' \<noteq> [] \<and>
   applyCrop_requests example_module
     = [\<lparr>req_filename = ''a.png'', req_x = 200, req_y = 1000, req_width = 200, req_height = 200\<rparr>] \<and>
   uploadedFilename
     (applyCrop (answer_with \<lparr>res_filename = ''b.png'', res_imageUrl = ''/processed/b.png'',
                                res_width = 200, res_height = 200\<rparr>) example_module)
     = Some ''b.png'' \<and>
   (\<exists>q'. applyCrop_requests
           (applyCrop (answer_with \<lparr>res_filename = ''b.png'', res_imageUrl = ''/processed/b.png'',
                                      res_width = 200, res_height = 200\<rparr>) example_module) = [q'] \<and>
         req_filename q' = ''b.png'')"
proof -
  have u: "uploadedFilename example_module = Some ''a.png''"
    by (simp add: example_module_def)
  have q: "applyCrop_requests example_module
     = [\<lparr>req_filename = ''a.png'', req_x = 200, req_y = 1000, req_width = 200, req_height = 200\<rparr>]"
    by (simp add: example_module_def applyCrop_requests_def crop_request_of_def showToast_def
        toSource_def math_round_def Let_def)
  show ?thesis
    using crop_chain_targets_latest_result[where s = example_module and a = "''a.png''"
        and q = "\<lparr>req_filename = ''a.png'', req_x = 200, req_y = 1000, req_width = 200,
                  req_height = 200\<rparr>"
        and server = "answer_with \<lparr>res_filename = ''b.png'', res_imageUrl = ''/processed/b.png'',
                                 res_width = 200, res_height = 200\<rparr>"
        and r = "\<lparr>res_filename = ''b.png'', res_imageUrl = ''/processed/b.png'',
                  res_width = 200, res_height = 200\<rparr>"
        and s' = "applyCrop (answer_with \<lparr>res_filename = ''b.png'',
                    res_imageUrl = ''/processed/b.png'',
                    res_width = 200, res_height = 200\<rparr>) example_module"] u q
    by (simp add: answer_with_def)
qed

subsection \<open>Failed processing calls\<close>

text \<open>
  Claim C8, as the code has it. When the crop request or the upscale request fails, with
  a non-2xx response or with a rejected fetch, the module variables are what they were
  before the call: only toasts are added, and for the upscale tool the loading overlay
  and the comparison section are hidden and the upscale button is enabled. Running the
  step again sends the same request. The text of the error toast is the prefix of the
  tool (\<open>Crop failed: \<close>, \<open>Upscale failed: \<close>) followed by the detail of the response,
  which is taken as it is when it is present and not empty and replaced by the fallback
  of the tool otherwise, or followed by the message of the rejection.
\<close>

theorem failed_processing_keeps_session:
  "(applyCrop_requests s = [q] \<and> server q = Resp_error d \<longrightarrow>
      applyCrop server s =
        s\<lparr>toasts := toasts s @ [(''Cropping image...'', ''info''),
               (''Crop failed: '' @ detail_or d ''Crop failed'', ''error'')]\<rparr> \<and>
      applyCrop_requests (applyCrop server s) = [q]) \<and>
   (applyCrop_requests s = [q] \<and> server q = Fetch_rejected m \<longrightarrow>
      applyCrop server s =
        s\<lparr>toasts := toasts s @ [(''Cropping image...'', ''info''),
               (''Crop failed: '' @ m, ''error'')]\<rparr> \<and>
      applyCrop_requests (applyCrop server s) = [q]) \<and>
   (processUpscale_requests u = [p] \<and> userver p = Resp_error d \<longrightarrow>
      processUpscale userver loaded u =
        u\<lparr>comparisonHidden := True, loadingHidden := True, upscaleBtnDisabled := False,
          up_toasts := up_toasts u @
            [(''Upscaling image '' @ int_text (selectedScale u) @ ''x... This may take a moment.'',
              ''info''),
             (''Upscale failed: '' @ detail_or d ''Upscale failed'', ''error'')]\<rparr> \<and>
      processUpscale_requests (processUpscale userver loaded u) = [p]) \<and>
   (processUpscale_requests u = [p] \<and> userver p = Fetch_rejected m \<longrightarrow>
      processUpscale userver loaded u =
        u\<lparr>comparisonHidden := True, loadingHidden := True, upscaleBtnDisabled := False,
          up_toasts := up_toasts u @
            [(''Upscaling image '' @ int_text (selectedScale u) @ ''x... This may take a moment.'',
              ''info''),
             (''Upscale failed: '' @ m, ''error'')]\<rparr> \<and>
      processUpscale_requests (processUpscale userver loaded u) = [p]) \<and>
   (d = Some m \<and> m \<noteq> [] \<longrightarrow> detail_or d fallback = m)"
proof (intro conjI impI)
  assume a: "applyCrop_requests s = [q] \<and> server q = Resp_error d"
  then have e: "applyCrop server s =
        s\<lparr>toasts := toasts s @ [(''Cropping image...'', ''info''),
               (''Crop failed: '' @ detail_or d ''Crop failed'', ''error'')]\<rparr>"
    by (simp add: applyCrop_failure cropImageAPI_failure)
  show "applyCrop server s =
        s\<lparr>toasts := toasts s @ [(''Cropping image...'', ''info''),
               (''Crop failed: '' @ detail_or d ''Crop failed'', ''error'')]\<rparr>"
    by (rule e)
  show "applyCrop_requests (applyCrop server s) = [q]"
    using a by (simp add: e applyCrop_requests_toasts)
next
  assume a: "applyCrop_requests s = [q] \<and> server q = Fetch_rejected m"
  then have e: "applyCrop server s =
        s\<lparr>toasts := toasts s @ [(''Cropping image...'', ''info''),
               (''Crop failed: '' @ m, ''error'')]\<rparr>"
    by (simp add: applyCrop_failure cropImageAPI_failure)
  show "applyCrop server s =
        s\<lparr>toasts := toasts s @ [(''Cropping image...'', ''info''),
               (''Crop failed: '' @ m, ''error'')]\<rparr>"
    by (rule e)
  show "applyCrop_requests (applyCrop server s) = [q]"
    using a by (simp add: e applyCrop_requests_toasts)
next
  assume a: "processUpscale_requests u = [p] \<and> userver p = Resp_error d"
  then have "upscaleImage userver (fst p) (snd p) = Inl (detail_or d ''Upscale failed'')"
    by (simp add: upscaleImage_failure)
  with a have e: "processUpscale userver loaded u =
        u\<lparr>comparisonHidden := True, loadingHidden := True, upscaleBtnDisabled := False,
          up_toasts := up_toasts u @
            [(''Upscaling image '' @ int_text (selectedScale u) @ ''x... This may take a moment.'',
              ''info''),
             (''Upscale failed: '' @ detail_or d ''Upscale failed'', ''error'')]\<rparr>"
    by (simp add: processUpscale_failure)
  show "processUpscale userver loaded u =
        u\<lparr>comparisonHidden := True, loadingHidden := True, upscaleBtnDisabled := False,
          up_toasts := up_toasts u @
            [(''Upscaling image '' @ int_text (selectedScale u) @ ''x... This may take a moment.'',
              ''info''),
             (''Upscale failed: '' @ detail_or d ''Upscale failed'', ''error'')]\<rparr>"
    by (rule e)
  show "processUpscale_requests (processUpscale userver loaded u) = [p]"
    using a unfolding e processUpscale_requests_frame by simp
next
  assume a: "processUpscale_requests u = [p] \<and> userver p = Fetch_rejected m"
  then have "upscaleImage userver (fst p) (snd p) = Inl m"
    by (simp add: upscaleImage_failure)
  with a have e: "processUpscale userver loaded u =
        u\<lparr>comparisonHidden := True, loadingHidden := True, upscaleBtnDisabled := False,
          up_toasts := up_toasts u @
            [(''Upscaling image '' @ int_text (selectedScale u) @ ''x... This may take a moment.'',
              ''info''),
             (''Upscale failed: '' @ m, ''error'')]\<rparr>"
    by (simp add: processUpscale_failure)
  show "processUpscale userver loaded u =
        u\<lparr>comparisonHidden := True, loadingHidden := True, upscaleBtnDisabled := False,
          up_toasts := up_toasts u @
            [(''Upscaling image '' @ int_text (selectedScale u) @ ''x... This may take a moment.'',
              ''info''),
             (''Upscale failed: '' @ m, ''error'')]\<rparr>"
    by (rule e)
  show "processUpscale_requests (processUpscale userver loaded u) = [p]"
    using a unfolding e processUpscale_requests_frame by simp
next
  assume "d = Some m \<and> m \<noteq> []"
  then show "detail_or d fallback = m"
    by (simp add: detail_or_present)
qed


text \<open>
  The error text is not the detail alone: for the detail \<open>File not found\<close> the toasts
  read \<open>Crop failed: File not found\<close> and \<open>Upscale failed: File not found\<close>.
\<close>

theorem failed_processing_keeps_session_counterexample:
  "fst (last (toasts (applyCrop (reject_with ''File not found'') example_module)))
     = ''Crop failed: File not found'' \<and>
   fst (last (toasts (applyCrop (reject_with ''File not found'') example_module)))
     \<noteq> ''File not found'' \<and>
   fst (last (up_toasts (processUpscale (reject_with ''File not found'') True example_upscale)))
     = ''Upscale failed: File not found'' \<and>
   fst (last (up_toasts (processUpscale (reject_with ''File not found'') True example_upscale)))
     \<noteq> ''File not found''"
  by (simp add: example_module_def example_upscale_def upscale_init_def reject_with_def
      applyCrop_def cropImageAPI_def processUpscale_def upscaleImage_def detail_or_def
      too_large_def showToast_def Let_def)


text \<open>Both tools on a server that rejects every request with \<open>File not found\<close>.\<close>

theorem failed_processing_keeps_session_witness:
  "applyCrop_requests example_module
     = [\<lparr>req_filename = ''a.png'', req_x = 200, req_y = 1000, req_width = 200, req_height = 200\<rparr>] \<and>
   applyCrop (reject_with ''File not found'') example_module
     = example_module\<lparr>toasts := [(''Cropping image...'', ''info''),
                                    (''Crop failed: File not found'', ''error'')]\<rparr> \<and>
   applyCrop_requests (applyCrop (reject_with ''File not found'') example_module)
     = [\<lparr>req_filename = ''a.png'', req_x = 200, req_y = 1000, req_width = 200, req_height = 200\<rparr>] \<and>
   processUpscale_requests example_upscale = [(''u.png'', 4)] \<and>
   processUpscale (reject_with ''File not found'') True example_upscale
     = example_upscale\<lparr>up_toasts :=
         [(''Upscaling image 4x... This may take a moment.'', ''info''),
          (''Upscale failed: File not found'', ''error'')]\<rparr> \<and>
   processUpscale_requests (processUpscale (reject_with ''File not found'') True example_upscale)
     = [(''u.png'', 4)]"
proof -
  have q: "applyCrop_requests example_module
     = [\<lparr>req_filename = ''a.png'', req_x = 200, req_y = 1000, req_width = 200, req_height = 200\<rparr>]"
    by (simp add: example_module_def applyCrop_requests_def crop_request_of_def showToast_def
        toSource_def math_round_def Let_def)
  have p: "processUpscale_requests example_upscale = [(''u.png'', 4)]"
    by (simp add: example_upscale_def upscale_init_def processUpscale_requests_def too_large_def)
  have t: "toasts example_module = []" "up_toasts example_upscale = []"
    "selectedScale example_upscale = 4"
    "example_upscale\<lparr>comparisonHidden := True, loadingHidden := True,
        upscaleBtnDisabled := False, up_toasts := ts\<rparr> = example_upscale\<lparr>up_toasts := ts\<rparr>" for ts
    by (simp_all add: example_module_def example_upscale_def upscale_init_def)
  have n: "int_text 4 = ''4''"
    by code_simp
  have f: "processUpscale_requests (example_upscale\<lparr>up_toasts := ts\<rparr>)
             = processUpscale_requests example_upscale" for ts
    by (simp add: processUpscale_requests_def split: option.splits)
  have r: "reject_with ''File not found'' x = Resp_error (Some ''File not found'')" for x :: 'q
    by (simp add: reject_with_def)
  show ?thesis
    using failed_processing_keeps_session[where s = example_module
        and q = "\<lparr>req_filename = ''a.png'', req_x = 200, req_y = 1000, req_width = 200,
                  req_height = 200\<rparr>"
        and server = "reject_with ''File not found''" and d = "Some ''File not found''"
        and m = "''File not found''" and u = example_upscale and p = "(''u.png'', 4)"
        and userver = "reject_with ''File not found''" and loaded = True
        and fallback = "''Crop failed''"] q p
    by (simp add: t n r f detail_or_def applyCrop_requests_toasts)
qed


end
